theory Spec2Isabelle
  imports Main "HOL-Library.List_Lexorder" "HOL-Library.Char_ord"
begin

section \<open>SQL values and operators used by pipeline.py\<close>

text \<open>
  The pipeline is a sequence of SQL statements run by \<^verbatim>\<open>main()\<close> of pipeline.py.
  A nullable SQL value is an \<open>option\<close> (\<open>None\<close> is NULL), a table is the list of its rows,
  and a SQL boolean has three values: \<open>Some True\<close>, \<open>Some False\<close> and NULL.
\<close>

type_synonym varchar = "string option"
type_synonym sql_bool = "bool option"
type_synonym sql_integer = "int option"

definition sql_and :: "sql_bool \<Rightarrow> sql_bool \<Rightarrow> sql_bool" where
  "sql_and a b =
     (if a = Some False \<or> b = Some False then Some False
      else if a = None \<or> b = None then None
      else Some True)"

definition sql_or :: "sql_bool \<Rightarrow> sql_bool \<Rightarrow> sql_bool" where
  "sql_or a b =
     (if a = Some True \<or> b = Some True then Some True
      else if a = None \<or> b = None then None
      else Some False)"

definition sql_not :: "sql_bool \<Rightarrow> sql_bool" where
  "sql_not a = map_option Not a"

definition sql_is_null :: "'a option \<Rightarrow> sql_bool" where
  "sql_is_null x = Some (x = None)"

definition sql_is_not_null :: "'a option \<Rightarrow> sql_bool" where
  "sql_is_not_null x = Some (x \<noteq> None)"

definition sql_cmp :: "('a \<Rightarrow> 'a \<Rightarrow> bool) \<Rightarrow> 'a option \<Rightarrow> 'a option \<Rightarrow> sql_bool" where
  "sql_cmp rel x y =
     (case x of None \<Rightarrow> None
      | Some a \<Rightarrow> (case y of None \<Rightarrow> None | Some b \<Rightarrow> Some (rel a b)))"

definition sql_eq :: "'a option \<Rightarrow> 'a option \<Rightarrow> sql_bool" where
  "sql_eq x y = sql_cmp (\<lambda>a b. a = b) x y"

definition sql_ne :: "'a option \<Rightarrow> 'a option \<Rightarrow> sql_bool" where
  "sql_ne x y = sql_cmp (\<lambda>a b. a \<noteq> b) x y"

definition sql_lt :: "sql_integer \<Rightarrow> sql_integer \<Rightarrow> sql_bool" where
  "sql_lt x y = sql_cmp (\<lambda>a b. a < b) x y"

definition sql_gt :: "sql_integer \<Rightarrow> sql_integer \<Rightarrow> sql_bool" where
  "sql_gt x y = sql_cmp (\<lambda>a b. b < a) x y"

definition sql_le :: "sql_integer \<Rightarrow> sql_integer \<Rightarrow> sql_bool" where
  "sql_le x y = sql_cmp (\<lambda>a b. a \<le> b) x y"

definition sql_ge :: "sql_integer \<Rightarrow> sql_integer \<Rightarrow> sql_bool" where
  "sql_ge x y = sql_cmp (\<lambda>a b. b \<le> a) x y"

definition sql_between :: "sql_integer \<Rightarrow> sql_integer \<Rightarrow> sql_integer \<Rightarrow> sql_bool" where
  \<comment> \<open>\<^verbatim>\<open>x BETWEEN lo AND hi\<close> is \<^verbatim>\<open>x >= lo AND x <= hi\<close>.\<close>
  "sql_between x lo hi = sql_and (sql_ge x lo) (sql_le x hi)"

definition sql_where :: "sql_bool \<Rightarrow> bool" where
  \<comment> \<open>A WHERE, HAVING, ON or WHEN condition keeps a row only when it is true: NULL drops it.\<close>
  "sql_where c = (c = Some True)"

fun sql_case :: "(sql_bool \<times> 'a option) list \<Rightarrow> 'a option \<Rightarrow> 'a option" where
  \<comment> \<open>\<^verbatim>\<open>CASE WHEN c1 THEN v1 ... ELSE e END\<close>: the first branch whose condition is true.\<close>
  "sql_case [] e = e"
| "sql_case ((c, v) # branches) e = (if sql_where c then v else sql_case branches e)"

definition sql_in_list :: "'a option \<Rightarrow> 'a list \<Rightarrow> sql_bool" where
  \<comment> \<open>\<^verbatim>\<open>x IN ('a', 'b', ...)\<close> over non-null literals.\<close>
  "sql_in_list x vs = map_option (\<lambda>v. v \<in> set vs) x"

definition sql_in_subquery :: "'a option \<Rightarrow> 'a option list \<Rightarrow> sql_bool" where
  \<comment> \<open>\<^verbatim>\<open>x IN (SELECT col FROM ...)\<close>: false on an empty subquery; otherwise NULL when \<open>x\<close> is
      NULL; true on a match; NULL when there is no match but the subquery holds a NULL.\<close>
  "sql_in_subquery x col =
     (if col = [] then Some False
      else case x of
        None \<Rightarrow> None
      | Some v \<Rightarrow>
          if Some v \<in> set col then Some True
          else if None \<in> set col then None
          else Some False)"

text \<open>
  A string is the list of the bytes of its UTF-8 encoding. \<^verbatim>\<open>TRIM(x)\<close> with one argument
  reads the string code point by code point and removes, at both ends, the code points of
  the Unicode category Zs (space separators): U+0020, U+00A0, U+1680, U+2000 to U+200A,
  U+202F, U+205F and U+3000.
\<close>

definition space_separators :: "string list" where
  "space_separators =
     [[CHR 0x20],
      [CHR 0xC2, CHR 0xA0],
      [CHR 0xE1, CHR 0x9A, CHR 0x80],
      [CHR 0xE2, CHR 0x80, CHR 0x80], [CHR 0xE2, CHR 0x80, CHR 0x81],
      [CHR 0xE2, CHR 0x80, CHR 0x82], [CHR 0xE2, CHR 0x80, CHR 0x83],
      [CHR 0xE2, CHR 0x80, CHR 0x84], [CHR 0xE2, CHR 0x80, CHR 0x85],
      [CHR 0xE2, CHR 0x80, CHR 0x86], [CHR 0xE2, CHR 0x80, CHR 0x87],
      [CHR 0xE2, CHR 0x80, CHR 0x88], [CHR 0xE2, CHR 0x80, CHR 0x89],
      [CHR 0xE2, CHR 0x80, CHR 0x8A],
      [CHR 0xE2, CHR 0x80, CHR 0xAF],
      [CHR 0xE2, CHR 0x81, CHR 0x9F],
      [CHR 0xE3, CHR 0x80, CHR 0x80]]"

definition is_continuation :: "char \<Rightarrow> bool" where
  \<comment> \<open>a byte \<^verbatim>\<open>10xxxxxx\<close>, which continues the encoding of a code point\<close>
  "is_continuation c = (case c of Char b0 b1 b2 b3 b4 b5 b6 b7 \<Rightarrow> b7 \<and> \<not> b6)"

function utf8_chars :: "string \<Rightarrow> string list" where
  \<comment> \<open>the encodings of the code points of a string, in order\<close>
  "utf8_chars [] = []"
| "utf8_chars (c # s) =
     (c # takeWhile is_continuation s) # utf8_chars (dropWhile is_continuation s)"
  by pat_completeness auto
termination
  by (relation "measure length") (auto simp: le_imp_less_Suc length_dropWhile_le)

definition trim_spaces :: "string \<Rightarrow> string" where
  "trim_spaces s =
     concat (rev (dropWhile (\<lambda>ch. ch \<in> set space_separators)
       (rev (dropWhile (\<lambda>ch. ch \<in> set space_separators) (utf8_chars s)))))"

definition sql_trim :: "varchar \<Rightarrow> varchar" where
  \<comment> \<open>\<^verbatim>\<open>TRIM(x)\<close>\<close>
  "sql_trim x = map_option trim_spaces x"

definition is_space :: "char \<Rightarrow> bool" where
  \<comment> \<open>The class \<^verbatim>\<open>\s\<close> of the regular expression engine: tab, newline, form feed,
      carriage return and space.\<close>
  "is_space c = (c \<in> {CHR 0x09, CHR 0x0A, CHR 0x0C, CHR 0x0D, CHR '' ''})"

definition regexp_replace_spaces :: "string \<Rightarrow> string" where
  \<comment> \<open>\<^verbatim>\<open>REGEXP_REPLACE(s, '\s+', '')\<close> with no options argument: the first match, which is the
      leftmost maximal run of whitespace, is replaced by the empty string and the rest of the
      string is copied.\<close>
  "regexp_replace_spaces s =
     takeWhile (\<lambda>c. \<not> is_space c) s
       @ dropWhile is_space (dropWhile (\<lambda>c. \<not> is_space c) s)"

definition sql_regexp_replace_spaces :: "varchar \<Rightarrow> varchar" where
  "sql_regexp_replace_spaces x = map_option regexp_replace_spaces x"

definition is_digit :: "char \<Rightarrow> bool" where
  "is_digit c = (c \<in> set ''0123456789'')"

definition regexp_matches_postal :: "varchar \<Rightarrow> sql_bool" where
  \<comment> \<open>\<^verbatim>\<open>regexp_matches(x, '^[0-9]{5}$')\<close>\<close>
  "regexp_matches_postal x = map_option (\<lambda>s. length s = 5 \<and> list_all is_digit s) x"

definition regexp_matches_app_id :: "varchar \<Rightarrow> sql_bool" where
  \<comment> \<open>\<^verbatim>\<open>regexp_matches(x, '^APP[0-9]+$')\<close>\<close>
  "regexp_matches_app_id x =
     map_option (\<lambda>s. take 3 s = ''APP'' \<and> drop 3 s \<noteq> [] \<and> list_all is_digit (drop 3 s)) x"

definition cast_bool_int :: "sql_bool \<Rightarrow> sql_integer" where
  \<comment> \<open>\<^verbatim>\<open>flag::INT\<close>\<close>
  "cast_bool_int b = map_option (\<lambda>v. if v then 1 else 0) b"

definition sql_sum :: "sql_integer list \<Rightarrow> sql_integer" where
  \<comment> \<open>\<^verbatim>\<open>SUM(x)\<close> skips the NULLs and is NULL when no value is left, so on an empty table.\<close>
  "sql_sum xs =
     (if list_all (\<lambda>x. x = None) xs then None
      else Some (sum_list (map (\<lambda>x. case x of None \<Rightarrow> 0 | Some v \<Rightarrow> v) xs)))"

definition sql_count_star :: "'a list \<Rightarrow> int" where
  "sql_count_star rows = int (length rows)"

definition count_rows :: "'a \<Rightarrow> 'a list \<Rightarrow> nat" where
  "count_rows k ks = length (filter (\<lambda>x. x = k) ks)"

definition group_by_having_count_gt1 :: "'a list \<Rightarrow> ('a \<times> nat) list" where
  \<comment> \<open>\<^verbatim>\<open>SELECT k, COUNT(*) ... GROUP BY 1 HAVING COUNT(*) > 1\<close>: one row per distinct key
      (the NULLs form one group) that occurs more than once.\<close>
  "group_by_having_count_gt1 ks =
     filter (\<lambda>(k, cnt). 1 < cnt) (map (\<lambda>k. (k, count_rows k ks)) (remdups ks))"

definition sql_union :: "'a list \<Rightarrow> 'a list \<Rightarrow> 'a list" where
  \<comment> \<open>\<^verbatim>\<open>SELECT DISTINCT ... UNION SELECT DISTINCT ...\<close>\<close>
  "sql_union xs ys = remdups (remdups xs @ remdups ys)"

definition array_agg_ordered :: "varchar list \<Rightarrow> varchar list option" where
  \<comment> \<open>\<^verbatim>\<open>array_agg(x ORDER BY x)\<close>: NULL over no rows; the strings in ascending byte order,
      with the NULLs last.\<close>
  "array_agg_ordered xs =
     (if xs = [] then None
      else Some (map Some (sort (concat (map (\<lambda>x. case x of None \<Rightarrow> [] | Some s \<Rightarrow> [s]) xs)))
                 @ filter (\<lambda>x. x = None) xs))"

definition left_join :: "('a \<Rightarrow> 'b \<Rightarrow> sql_bool) \<Rightarrow> 'a list \<Rightarrow> 'b list \<Rightarrow> ('a \<times> 'b option) list" where
  \<comment> \<open>\<^verbatim>\<open>a LEFT JOIN l ON cond\<close>: every left row with each right row for which the condition is
      true, and once with no right row when there is none.\<close>
  "left_join cond as ls =
     concat (map (\<lambda>a.
        (let ms = filter (\<lambda>l. sql_where (cond a l)) ls
         in if ms = [] then [(a, None)] else map (\<lambda>l. (a, Some l)) ms)) as)"

subsection \<open>Dates and timestamps\<close>

datatype date = Date (year: int) (month: int) (day: int)

definition date_less :: "date \<Rightarrow> date \<Rightarrow> bool" where
  "date_less a b =
     (year a < year b
      \<or> (year a = year b \<and> (month a < month b \<or> (month a = month b \<and> day a < day b))))"

definition date_diff_month :: "date \<Rightarrow> date \<Rightarrow> int" where
  \<comment> \<open>\<^verbatim>\<open>date_diff('month', s, e)\<close>: the difference of the month numbers
      \<open>12 * year + month\<close>; the days of the month are not read.\<close>
  "date_diff_month s e = (year e * 12 + month e) - (year s * 12 + month s)"


type_synonym timestamp = int
  \<comment> \<open>microseconds since 1970-01-01 00:00:00\<close>

definition date_trunc_second :: "timestamp \<Rightarrow> timestamp" where
  "date_trunc_second t = t - t mod 1000000"

subsection \<open>What the database engine supplies\<close>

text \<open>
  The conversions of \<^verbatim>\<open>TRY_CAST\<close>, the arithmetic of the type DOUBLE, the Unicode case
  mapping of \<^verbatim>\<open>LOWER\<close> and the time zone table are parts of the database engine, not of
  pipeline.py. They are parameters of the model. The type \<open>'d\<close> stands for DOUBLE.
\<close>

record 'd engine =
  try_cast_double :: "string \<Rightarrow> 'd option"
  try_cast_integer :: "string \<Rightarrow> int option"
  try_cast_date :: "string \<Rightarrow> date option"
  double_le_zero :: "'d \<Rightarrow> bool"
  double_lt_zero :: "'d \<Rightarrow> bool"
  double_div :: "'d \<Rightarrow> 'd \<Rightarrow> 'd"
  lower :: "string \<Rightarrow> string"
  utc_offset_berlin :: "timestamp \<Rightarrow> int"

definition sql_try_cast :: "(string \<Rightarrow> 'a option) \<Rightarrow> varchar \<Rightarrow> 'a option" where
  "sql_try_cast conv x = (case x of None \<Rightarrow> None | Some s \<Rightarrow> conv s)"

definition sql_lower :: "'d engine \<Rightarrow> varchar \<Rightarrow> varchar" where
  \<comment> \<open>\<^verbatim>\<open>LOWER(x)\<close>\<close>
  "sql_lower eng x = map_option (lower eng) x"

definition at_time_zone_berlin :: "'d engine \<Rightarrow> timestamp \<Rightarrow> timestamp" where
  \<comment> \<open>\<^verbatim>\<open>ts AT TIME ZONE 'Europe/Berlin'\<close>: the wall-clock time in Berlin at the instant \<open>ts\<close>.\<close>
  "at_time_zone_berlin eng t = t + utc_offset_berlin eng t"

record clock =
  now_utc :: timestamp
  ts_cleaned_applications :: timestamp
  ts_lms_cleaned :: timestamp
  ts_data_quality_report :: timestamp
  current_date :: date

section \<open>The tables\<close>

subsection \<open>Raw applications and the quarantine\<close>

text \<open>
  \<^verbatim>\<open>read_csv(..., all_varchar=true)\<close>: every cell of a raw table is text or NULL. The raw
  applications have the twelve columns named by the header. \<^verbatim>\<open>read_csv\<close> adds the column
  \<^verbatim>\<open>column12\<close> only when some line of the feed has a thirteenth field; a statement that
  names \<^verbatim>\<open>column12\<close> on a table without it does not bind, and \<^verbatim>\<open>con.execute\<close> raises.
\<close>

datatype error =
    FileNotFoundError string  \<comment> \<open>with its message\<close>
  | BinderException string  \<comment> \<open>with the name of the column that does not bind\<close>

record raw_application =
  application_id :: varchar
  customer_email :: varchar
  installer_partner_id :: varchar
  installation_type :: varchar
  system_size_kwp :: varchar
  loan_amount_eur :: varchar
  loan_term_months :: varchar
  application_date :: varchar
  credit_score :: varchar
  annual_income_eur :: varchar
  postal_code :: varchar
  status :: varchar
  column12 :: varchar

record good_application =
  application_id :: varchar
  customer_email :: varchar
  installer_partner_id :: varchar
  installation_type :: varchar
  system_size_kwp :: varchar
  loan_amount_eur :: varchar
  loan_term_months :: varchar
  application_date :: varchar
  credit_score :: varchar
  annual_income_eur :: varchar
  postal_code :: varchar
  status :: varchar

datatype raw_applications_table =
    Columns12 "good_application list"
  | Columns13 "raw_application list"

definition column12_not_found :: error where
  "column12_not_found = BinderException ''column12''"

definition raw_applications_bad :: "raw_applications_table \<Rightarrow> error + raw_application list" where
  \<comment> \<open>\<^verbatim>\<open>SELECT * FROM raw_applications WHERE column12 IS NOT NULL AND TRIM(column12) <> ''\<close>\<close>
  "raw_applications_bad raw_applications =
     (case raw_applications of
        Columns12 rows \<Rightarrow> Inl column12_not_found
      | Columns13 rows \<Rightarrow>
          Inr (filter (\<lambda>r. sql_where (sql_and (sql_is_not_null (column12 r))
                                               (sql_ne (sql_trim (column12 r)) (Some ''''))))
                 rows))"

definition select_good :: "raw_application \<Rightarrow> good_application" where
  "select_good r =
     \<lparr> good_application.application_id = raw_application.application_id r,
       good_application.customer_email = raw_application.customer_email r,
       good_application.installer_partner_id = raw_application.installer_partner_id r,
       good_application.installation_type = raw_application.installation_type r,
       good_application.system_size_kwp = raw_application.system_size_kwp r,
       good_application.loan_amount_eur = raw_application.loan_amount_eur r,
       good_application.loan_term_months = raw_application.loan_term_months r,
       good_application.application_date = raw_application.application_date r,
       good_application.credit_score = raw_application.credit_score r,
       good_application.annual_income_eur = raw_application.annual_income_eur r,
       good_application.postal_code = raw_application.postal_code r,
       good_application.status = raw_application.status r \<rparr>"

definition raw_applications_good :: "raw_applications_table \<Rightarrow> error + good_application list" where
  \<comment> \<open>\<^verbatim>\<open>SELECT application_id, ..., status FROM raw_applications
      WHERE column12 IS NULL OR TRIM(column12) = ''\<close>\<close>
  "raw_applications_good raw_applications =
     (case raw_applications of
        Columns12 rows \<Rightarrow> Inl column12_not_found
      | Columns13 rows \<Rightarrow>
          Inr (map select_good
                 (filter (\<lambda>r. sql_where (sql_or (sql_is_null (column12 r))
                                                 (sql_eq (sql_trim (column12 r)) (Some ''''))))
                    rows)))"

definition app_dupes :: "good_application list \<Rightarrow> (varchar \<times> nat) list" where
  \<comment> \<open>\<^verbatim>\<open>SELECT application_id, COUNT(*) AS cnt FROM raw_applications_good
      GROUP BY 1 HAVING COUNT(*) > 1\<close>\<close>
  "app_dupes good = group_by_having_count_gt1 (map good_application.application_id good)"

subsection \<open>Cleaned applications\<close>

definition INSTALLATION_TYPES :: "string list" where
  "INSTALLATION_TYPES = [''solar_pv'', ''solar_battery'', ''heat_pump'']"

record 'd typed_application =
  application_id :: varchar
  customer_email :: varchar
  installer_partner_id :: varchar
  installation_type :: varchar
  system_size_kwp :: "'d option"
  loan_amount_eur :: "'d option"
  loan_term_months :: sql_integer
  application_date :: "date option"
  credit_score :: sql_integer
  annual_income_eur :: "'d option"
  postal_code :: varchar
  status :: varchar

record 'd base_application = "'d typed_application" +
  flag_application_id_null :: sql_bool
  flag_application_id_duplicate :: sql_bool
  flag_loan_amount_non_positive :: sql_bool
  flag_credit_score_missing :: sql_bool
  flag_credit_score_out_of_range :: sql_bool
  flag_postal_code_invalid :: sql_bool
  flag_installation_type_invalid :: sql_bool
  flag_system_size_invalid :: sql_bool
  flag_system_size_present_for_heat_pump :: sql_bool

record 'd cleaned_application = "'d base_application" +
  risk_category :: varchar
  loan_to_income_ratio :: "'d option"
  data_quality_flags :: "(string \<times> sql_bool) list"
  processed_at :: timestamp

definition typed :: "'d engine \<Rightarrow> good_application \<Rightarrow> 'd typed_application" where
  \<comment> \<open>the CTE \<^verbatim>\<open>typed\<close>\<close>
  "typed eng g =
     \<lparr> typed_application.application_id = good_application.application_id g,
       typed_application.customer_email =
         sql_regexp_replace_spaces (sql_lower eng (good_application.customer_email g)),
       typed_application.installer_partner_id = good_application.installer_partner_id g,
       typed_application.installation_type = good_application.installation_type g,
       typed_application.system_size_kwp =
         sql_try_cast (try_cast_double eng) (good_application.system_size_kwp g),
       typed_application.loan_amount_eur =
         sql_try_cast (try_cast_double eng) (good_application.loan_amount_eur g),
       typed_application.loan_term_months =
         sql_try_cast (try_cast_integer eng) (good_application.loan_term_months g),
       typed_application.application_date =
         sql_try_cast (try_cast_date eng) (good_application.application_date g),
       typed_application.credit_score =
         sql_try_cast (try_cast_integer eng) (good_application.credit_score g),
       typed_application.annual_income_eur =
         sql_try_cast (try_cast_double eng) (good_application.annual_income_eur g),
       typed_application.postal_code = good_application.postal_code g,
       typed_application.status = sql_lower eng (good_application.status g) \<rparr>"

definition base :: "'d engine \<Rightarrow> (varchar \<times> nat) list \<Rightarrow> 'd typed_application \<Rightarrow> 'd base_application" where
  \<comment> \<open>the CTE \<^verbatim>\<open>base\<close>: \<^verbatim>\<open>SELECT *, (...) AS flag_..., ... FROM typed\<close>\<close>
  "base eng dupes t =
     typed_application.extend t
       (base_application.fields
          (sql_or (sql_is_null (typed_application.application_id t))
                  (sql_eq (sql_trim (typed_application.application_id t)) (Some '''')))
          (sql_in_subquery (typed_application.application_id t) (map fst dupes))
          (sql_or (sql_is_null (typed_application.loan_amount_eur t))
                  (map_option (double_le_zero eng) (typed_application.loan_amount_eur t)))
          (sql_is_null (typed_application.credit_score t))
          (sql_and (sql_is_not_null (typed_application.credit_score t))
                   (sql_or (sql_lt (typed_application.credit_score t) (Some 300))
                           (sql_gt (typed_application.credit_score t) (Some 850))))
          (sql_or (sql_is_null (typed_application.postal_code t))
                  (sql_not (regexp_matches_postal (typed_application.postal_code t))))
          (sql_or (sql_is_null (typed_application.installation_type t))
                  (sql_not (sql_in_list (typed_application.installation_type t) INSTALLATION_TYPES)))
          (sql_and (sql_in_list (typed_application.installation_type t)
                      [''solar_pv'', ''solar_battery''])
                   (sql_or (sql_is_null (typed_application.system_size_kwp t))
                           (map_option (double_le_zero eng) (typed_application.system_size_kwp t))))
          (sql_and (sql_eq (typed_application.installation_type t) (Some ''heat_pump''))
                   (sql_is_not_null (typed_application.system_size_kwp t))))"

definition cleaned_application_row ::
  "'d engine \<Rightarrow> timestamp \<Rightarrow> 'd base_application \<Rightarrow> 'd cleaned_application" where
  \<comment> \<open>\<^verbatim>\<open>SELECT base.*, CASE ... END AS risk_category, ... FROM base\<close>; \<open>now\<close> is the
      statement's \<^verbatim>\<open>CURRENT_TIMESTAMP\<close>.\<close>
  "cleaned_application_row eng now b =
     base_application.extend b
       (cleaned_application.fields
          (sql_case
             [(sql_is_null (credit_score b), Some ''Unknown''),
              (sql_or (sql_lt (credit_score b) (Some 300)) (sql_gt (credit_score b) (Some 850)),
                 Some ''Invalid''),
              (sql_ge (credit_score b) (Some 750), Some ''Excellent''),
              (sql_between (credit_score b) (Some 700) (Some 749), Some ''Good''),
              (sql_between (credit_score b) (Some 650) (Some 699), Some ''Fair'')]
             (Some ''Poor''))
          (sql_case
             [(sql_or (sql_or (sql_is_null (annual_income_eur b))
                              (map_option (double_le_zero eng) (annual_income_eur b)))
                      (flag_loan_amount_non_positive b),
               None)]
             (case loan_amount_eur b of
                None \<Rightarrow> None
              | Some x \<Rightarrow> map_option (double_div eng x) (annual_income_eur b)))
          [(''application_id_null'', flag_application_id_null b),
           (''application_id_duplicate'', flag_application_id_duplicate b),
           (''loan_amount_non_positive'', flag_loan_amount_non_positive b),
           (''credit_score_missing'', flag_credit_score_missing b),
           (''credit_score_out_of_range'', flag_credit_score_out_of_range b),
           (''postal_code_invalid'', flag_postal_code_invalid b),
           (''installation_type_invalid'', flag_installation_type_invalid b),
           (''system_size_invalid'', flag_system_size_invalid b),
           (''system_size_present_for_heat_pump'', flag_system_size_present_for_heat_pump b)]
          (date_trunc_second (at_time_zone_berlin eng now)))"

definition cleaned_applications ::
  "'d engine \<Rightarrow> timestamp \<Rightarrow> good_application list \<Rightarrow> 'd cleaned_application list" where
  "cleaned_applications eng now good =
     map (\<lambda>g. cleaned_application_row eng now (base eng (app_dupes good) (typed eng g))) good"

subsection \<open>Cleaned LMS records\<close>

record raw_lms_row =
  loan_id :: varchar
  application_id :: varchar
  disbursement_date :: varchar
  current_balance_eur :: varchar
  days_past_due :: varchar
  payment_status :: varchar
  last_payment_date :: varchar
  next_payment_due :: varchar

record 'd typed_lms =
  loan_id :: varchar
  application_id :: varchar
  disbursement_date :: "date option"
  current_balance_eur :: "'d option"
  days_past_due :: sql_integer
  payment_status :: varchar
  last_payment_date :: "date option"
  next_payment_due :: "date option"

record 'd base_lms = "'d typed_lms" +
  flag_loan_id_null :: sql_bool
  flag_application_id_null :: sql_bool
  flag_application_id_invalid_format :: sql_bool
  flag_loan_id_duplicate :: sql_bool
  flag_application_id_duplicate :: sql_bool
  flag_current_balance_negative :: sql_bool
  flag_days_past_due_negative :: sql_bool
  flag_last_payment_before_disbursement :: sql_bool
  flag_next_due_before_disbursement :: sql_bool
  flag_last_payment_after_next_due :: sql_bool

record 'd cleaned_lms = "'d base_lms" +
  delinquency_bucket :: varchar
  data_quality_flags :: "(string \<times> sql_bool) list"
  processed_at :: timestamp

definition lms_loan_id_dupes :: "raw_lms_row list \<Rightarrow> varchar list" where
  \<comment> \<open>\<^verbatim>\<open>SELECT loan_id FROM raw_lms WHERE loan_id IS NOT NULL AND TRIM(loan_id) <> ''
      GROUP BY 1 HAVING COUNT(*) > 1\<close>\<close>
  "lms_loan_id_dupes raw_lms =
     map fst (group_by_having_count_gt1
       (map raw_lms_row.loan_id
          (filter (\<lambda>r. sql_where (sql_and (sql_is_not_null (raw_lms_row.loan_id r))
                                           (sql_ne (sql_trim (raw_lms_row.loan_id r)) (Some ''''))))
             raw_lms)))"

definition lms_app_id_dupes :: "raw_lms_row list \<Rightarrow> varchar list" where
  \<comment> \<open>\<^verbatim>\<open>SELECT application_id FROM raw_lms
      WHERE application_id IS NOT NULL AND TRIM(application_id) <> ''
      GROUP BY 1 HAVING COUNT(*) > 1\<close>\<close>
  "lms_app_id_dupes raw_lms =
     map fst (group_by_having_count_gt1
       (map raw_lms_row.application_id
          (filter (\<lambda>r. sql_where (sql_and (sql_is_not_null (raw_lms_row.application_id r))
                                           (sql_ne (sql_trim (raw_lms_row.application_id r)) (Some ''''))))
             raw_lms)))"

definition approved_applications :: "'d cleaned_application list \<Rightarrow> varchar list" where
  \<comment> \<open>\<^verbatim>\<open>SELECT application_id FROM cleaned_applications WHERE status = 'approved'\<close>;
      no later statement reads this table.\<close>
  "approved_applications cleaned =
     map typed_application.application_id
       (filter (\<lambda>a. sql_where (sql_eq (typed_application.status a) (Some ''approved''))) cleaned)"

definition lms_typed :: "'d engine \<Rightarrow> raw_lms_row \<Rightarrow> 'd typed_lms" where
  \<comment> \<open>the CTE \<^verbatim>\<open>lms_typed\<close>\<close>
  "lms_typed eng r =
     \<lparr> typed_lms.loan_id = raw_lms_row.loan_id r,
       typed_lms.application_id = raw_lms_row.application_id r,
       typed_lms.disbursement_date =
         sql_try_cast (try_cast_date eng) (raw_lms_row.disbursement_date r),
       typed_lms.current_balance_eur =
         sql_try_cast (try_cast_double eng) (raw_lms_row.current_balance_eur r),
       typed_lms.days_past_due =
         sql_try_cast (try_cast_integer eng) (raw_lms_row.days_past_due r),
       typed_lms.payment_status = sql_lower eng (raw_lms_row.payment_status r),
       typed_lms.last_payment_date =
         sql_try_cast (try_cast_date eng) (raw_lms_row.last_payment_date r),
       typed_lms.next_payment_due =
         sql_try_cast (try_cast_date eng) (raw_lms_row.next_payment_due r) \<rparr>"

definition lms_base ::
  "'d engine \<Rightarrow> varchar list \<Rightarrow> varchar list \<Rightarrow> 'd typed_lms \<Rightarrow> 'd base_lms" where
  \<comment> \<open>the CTE \<^verbatim>\<open>base\<close> of lms_cleaned\<close>
  "lms_base eng loan_id_dupes app_id_dupes t =
     typed_lms.extend t
       (base_lms.fields
          (sql_or (sql_is_null (typed_lms.loan_id t))
                  (sql_eq (sql_trim (typed_lms.loan_id t)) (Some '''')))
          (sql_or (sql_is_null (typed_lms.application_id t))
                  (sql_eq (sql_trim (typed_lms.application_id t)) (Some '''')))
          (sql_and (sql_is_not_null (typed_lms.application_id t))
                   (sql_not (regexp_matches_app_id (typed_lms.application_id t))))
          (sql_in_subquery (typed_lms.loan_id t) loan_id_dupes)
          (sql_in_subquery (typed_lms.application_id t) app_id_dupes)
          (sql_and (sql_is_not_null (typed_lms.current_balance_eur t))
                   (map_option (double_lt_zero eng) (typed_lms.current_balance_eur t)))
          (sql_and (sql_is_not_null (typed_lms.days_past_due t))
                   (sql_lt (typed_lms.days_past_due t) (Some 0)))
          (sql_and (sql_and (sql_is_not_null (typed_lms.last_payment_date t))
                            (sql_is_not_null (typed_lms.disbursement_date t)))
                   (sql_cmp date_less (typed_lms.last_payment_date t) (typed_lms.disbursement_date t)))
          (sql_and (sql_and (sql_is_not_null (typed_lms.next_payment_due t))
                            (sql_is_not_null (typed_lms.disbursement_date t)))
                   (sql_cmp date_less (typed_lms.next_payment_due t) (typed_lms.disbursement_date t)))
          (sql_and (sql_and (sql_is_not_null (typed_lms.last_payment_date t))
                            (sql_is_not_null (typed_lms.next_payment_due t)))
                   (sql_cmp date_less (typed_lms.next_payment_due t) (typed_lms.last_payment_date t))))"

definition cleaned_lms_row :: "'d engine \<Rightarrow> timestamp \<Rightarrow> 'd base_lms \<Rightarrow> 'd cleaned_lms" where
  \<comment> \<open>\<^verbatim>\<open>SELECT *, CASE ... END AS delinquency_bucket, ... FROM base\<close>\<close>
  "cleaned_lms_row eng now b =
     base_lms.extend b
       (cleaned_lms.fields
          (sql_case
             [(sql_is_null (typed_lms.days_past_due b), None),
              (sql_eq (typed_lms.days_past_due b) (Some 0), Some ''Current''),
              (sql_between (typed_lms.days_past_due b) (Some 1) (Some 30), Some ''Late''),
              (sql_between (typed_lms.days_past_due b) (Some 31) (Some 90), Some ''Delinquent'')]
             (Some ''Default''))
          [(''loan_id_null'', flag_loan_id_null b),
           (''application_id_null'', base_lms.flag_application_id_null b),
           (''application_id_invalid_format'', flag_application_id_invalid_format b),
           (''loan_id_duplicate'', flag_loan_id_duplicate b),
           (''application_id_duplicate'', base_lms.flag_application_id_duplicate b),
           (''current_balance_negative'', flag_current_balance_negative b),
           (''days_past_due_negative'', flag_days_past_due_negative b),
           (''last_payment_before_disbursement'', flag_last_payment_before_disbursement b),
           (''next_due_before_disbursement'', flag_next_due_before_disbursement b),
           (''last_payment_after_next_due'', flag_last_payment_after_next_due b)]
          (date_trunc_second (at_time_zone_berlin eng now)))"

definition lms_cleaned :: "'d engine \<Rightarrow> timestamp \<Rightarrow> raw_lms_row list \<Rightarrow> 'd cleaned_lms list" where
  "lms_cleaned eng now raw_lms =
     map (\<lambda>r. cleaned_lms_row eng now
                (lms_base eng (lms_loan_id_dupes raw_lms) (lms_app_id_dupes raw_lms)
                   (lms_typed eng r)))
       raw_lms"

subsection \<open>Loan portfolio\<close>

text \<open>
  A portfolio row is \<^verbatim>\<open>a.*\<close> followed by the selected columns of \<^verbatim>\<open>l\<close>. The column
  \<^verbatim>\<open>l.flag_application_id_null\<close> has the name of a column of \<^verbatim>\<open>a.*\<close> and is written
  \<open>flag_application_id_null_1\<close> here.
\<close>

record 'd loan_portfolio_row = "'d cleaned_application" +
  loan_id :: varchar
  lms_application_id :: varchar
  disbursement_date :: "date option"
  current_balance_eur :: "'d option"
  days_past_due :: sql_integer
  payment_status :: varchar
  last_payment_date :: "date option"
  next_payment_due :: "date option"
  flag_loan_id_null :: sql_bool
  flag_application_id_null_1 :: sql_bool
  flag_application_id_invalid_format :: sql_bool
  flag_current_balance_negative :: sql_bool
  flag_days_past_due_negative :: sql_bool
  flag_last_payment_before_disbursement :: sql_bool
  flag_next_due_before_disbursement :: sql_bool
  flag_last_payment_after_next_due :: sql_bool
  lms_data_quality_flags :: "(string \<times> sql_bool) list option"
  lms_processed_at :: "timestamp option"
  delinquency_bucket :: varchar
  months_since_disbursement :: sql_integer

definition col :: "'r option \<Rightarrow> ('r \<Rightarrow> 'a option) \<Rightarrow> 'a option" where
  \<comment> \<open>a column of the right side of a left join: NULL on a row with no match\<close>
  "col l f = (case l of None \<Rightarrow> None | Some r \<Rightarrow> f r)"

definition select_portfolio ::
  "date \<Rightarrow> 'd cleaned_application \<times> 'd cleaned_lms option \<Rightarrow> 'd loan_portfolio_row" where
  \<comment> \<open>the SELECT list of loan_portfolio; \<open>today\<close> is \<^verbatim>\<open>CURRENT_DATE\<close>\<close>
  "select_portfolio today al =
     (case al of (a, l) \<Rightarrow>
       cleaned_application.extend a
         (loan_portfolio_row.fields
            (col l typed_lms.loan_id)
            (col l typed_lms.application_id)
            (col l typed_lms.disbursement_date)
            (col l typed_lms.current_balance_eur)
            (col l typed_lms.days_past_due)
            (col l typed_lms.payment_status)
            (col l typed_lms.last_payment_date)
            (col l typed_lms.next_payment_due)
            (col l base_lms.flag_loan_id_null)
            (col l base_lms.flag_application_id_null)
            (col l base_lms.flag_application_id_invalid_format)
            (col l base_lms.flag_current_balance_negative)
            (col l base_lms.flag_days_past_due_negative)
            (col l base_lms.flag_last_payment_before_disbursement)
            (col l base_lms.flag_next_due_before_disbursement)
            (col l base_lms.flag_last_payment_after_next_due)
            (map_option cleaned_lms.data_quality_flags l)
            (map_option cleaned_lms.processed_at l)
            (sql_case
               [(sql_is_null (col l typed_lms.days_past_due), None),
                (sql_eq (col l typed_lms.days_past_due) (Some 0), Some ''Current''),
                (sql_between (col l typed_lms.days_past_due) (Some 1) (Some 30), Some ''Late''),
                (sql_between (col l typed_lms.days_past_due) (Some 31) (Some 90),
                   Some ''Delinquent'')]
               (Some ''Default''))
            (sql_case
               [(sql_is_null (col l typed_lms.disbursement_date), None)]
               (map_option (\<lambda>d. date_diff_month d today) (col l typed_lms.disbursement_date)))))"

definition loan_portfolio ::
  "date \<Rightarrow> 'd cleaned_application list \<Rightarrow> 'd cleaned_lms list \<Rightarrow> 'd loan_portfolio_row list" where
  \<comment> \<open>\<^verbatim>\<open>FROM cleaned_applications a LEFT JOIN lms_cleaned l
      ON a.application_id = l.application_id\<close>\<close>
  "loan_portfolio today cleaned lms =
     map (select_portfolio today)
       (left_join (\<lambda>a l. sql_eq (typed_application.application_id a) (typed_lms.application_id l))
          cleaned lms)"

subsection \<open>Data quality report\<close>

record data_quality_report_row =
  applications_processed :: int
  quarantined_applications :: int
  lms_processed :: int
  app_application_id_null :: sql_integer
  app_application_id_duplicate :: sql_integer
  app_loan_amount_non_positive :: sql_integer
  app_credit_score_missing :: sql_integer
  app_credit_score_out_of_range :: sql_integer
  app_postal_code_invalid :: sql_integer
  app_installation_type_invalid :: sql_integer
  app_system_size_invalid :: sql_integer
  app_system_size_present_for_heat_pump :: sql_integer
  lms_loan_id_null :: sql_integer
  lms_application_id_null :: sql_integer
  lms_application_id_invalid_format :: sql_integer
  lms_loan_id_duplicate :: sql_integer
  lms_application_id_duplicate :: sql_integer
  lms_current_balance_negative :: sql_integer
  lms_days_past_due_negative :: sql_integer
  lms_last_payment_before_disbursement :: sql_integer
  lms_next_due_before_disbursement :: sql_integer
  lms_last_payment_after_next_due :: sql_integer
  problematic_application_ids :: "varchar list option"
  processed_at :: timestamp

definition sum_flag :: "('r \<Rightarrow> sql_bool) \<Rightarrow> 'r list \<Rightarrow> sql_integer" where
  \<comment> \<open>\<^verbatim>\<open>SUM(flag::INT)\<close> over a table\<close>
  "sum_flag flag rows = sql_sum (map (\<lambda>r. cast_bool_int (flag r)) rows)"

definition app_any_flag :: "'d cleaned_application \<Rightarrow> sql_bool" where
  \<comment> \<open>the WHERE condition of the first branch of \<^verbatim>\<open>problematic_ids\<close>\<close>
  "app_any_flag a =
     foldl sql_or (base_application.flag_application_id_null a)
       [base_application.flag_application_id_duplicate a,
        flag_loan_amount_non_positive a,
        flag_credit_score_missing a,
        flag_credit_score_out_of_range a,
        flag_postal_code_invalid a,
        flag_installation_type_invalid a,
        flag_system_size_invalid a,
        flag_system_size_present_for_heat_pump a]"

definition lms_any_flag :: "'d cleaned_lms \<Rightarrow> sql_bool" where
  \<comment> \<open>the WHERE condition of the second branch of \<^verbatim>\<open>problematic_ids\<close>\<close>
  "lms_any_flag l =
     foldl sql_or (base_lms.flag_loan_id_null l)
       [base_lms.flag_application_id_null l,
        base_lms.flag_application_id_invalid_format l,
        base_lms.flag_loan_id_duplicate l,
        base_lms.flag_application_id_duplicate l,
        base_lms.flag_current_balance_negative l,
        base_lms.flag_days_past_due_negative l,
        base_lms.flag_last_payment_before_disbursement l,
        base_lms.flag_next_due_before_disbursement l,
        base_lms.flag_last_payment_after_next_due l]"

definition problematic_ids :: "'d cleaned_application list \<Rightarrow> 'd cleaned_lms list \<Rightarrow> varchar list" where
  "problematic_ids cleaned lms =
     sql_union
       (map typed_application.application_id (filter (\<lambda>a. sql_where (app_any_flag a)) cleaned))
       (map typed_lms.application_id (filter (\<lambda>l. sql_where (lms_any_flag l)) lms))"

definition data_quality_report ::
  "'d engine \<Rightarrow> timestamp \<Rightarrow> 'd cleaned_application list \<Rightarrow> 'd cleaned_lms list
     \<Rightarrow> raw_application list \<Rightarrow> data_quality_report_row" where
  \<comment> \<open>The three CTEs \<^verbatim>\<open>app_counts\<close>, \<^verbatim>\<open>lms_counts\<close> and \<^verbatim>\<open>quarantine_counts\<close> are
      aggregates with no GROUP BY, one row each, so their cross join is one row.\<close>
  "data_quality_report eng now cleaned lms bad =
     \<lparr> applications_processed = sql_count_star cleaned,
       quarantined_applications = sql_count_star bad,
       lms_processed = sql_count_star lms,
       app_application_id_null = sum_flag base_application.flag_application_id_null cleaned,
       app_application_id_duplicate = sum_flag base_application.flag_application_id_duplicate cleaned,
       app_loan_amount_non_positive = sum_flag flag_loan_amount_non_positive cleaned,
       app_credit_score_missing = sum_flag flag_credit_score_missing cleaned,
       app_credit_score_out_of_range = sum_flag flag_credit_score_out_of_range cleaned,
       app_postal_code_invalid = sum_flag flag_postal_code_invalid cleaned,
       app_installation_type_invalid = sum_flag flag_installation_type_invalid cleaned,
       app_system_size_invalid = sum_flag flag_system_size_invalid cleaned,
       app_system_size_present_for_heat_pump = sum_flag flag_system_size_present_for_heat_pump cleaned,
       lms_loan_id_null = sum_flag base_lms.flag_loan_id_null lms,
       lms_application_id_null = sum_flag base_lms.flag_application_id_null lms,
       lms_application_id_invalid_format = sum_flag base_lms.flag_application_id_invalid_format lms,
       lms_loan_id_duplicate = sum_flag base_lms.flag_loan_id_duplicate lms,
       lms_application_id_duplicate = sum_flag base_lms.flag_application_id_duplicate lms,
       lms_current_balance_negative = sum_flag base_lms.flag_current_balance_negative lms,
       lms_days_past_due_negative = sum_flag base_lms.flag_days_past_due_negative lms,
       lms_last_payment_before_disbursement =
         sum_flag base_lms.flag_last_payment_before_disbursement lms,
       lms_next_due_before_disbursement = sum_flag base_lms.flag_next_due_before_disbursement lms,
       lms_last_payment_after_next_due = sum_flag base_lms.flag_last_payment_after_next_due lms,
       problematic_application_ids = array_agg_ordered (problematic_ids cleaned lms),
       processed_at = date_trunc_second (at_time_zone_berlin eng now) \<rparr>"

subsection \<open>The run\<close>

record 'd outputs =
  out_cleaned_applications :: "'d cleaned_application list"
  out_lms_cleaned :: "'d cleaned_lms list"
  out_loan_portfolio :: "'d loan_portfolio_row list"
  out_data_quality_report :: data_quality_report_row

definition main ::
  "'d engine \<Rightarrow> clock \<Rightarrow> string \<Rightarrow> string
     \<Rightarrow> raw_applications_table option \<Rightarrow> raw_lms_row list option
     \<Rightarrow> error + 'd outputs" where
  \<comment> \<open>\<^verbatim>\<open>main()\<close>: \<open>APPLICATIONS_CSV\<close> and \<open>LMS_CSV\<close> are the two paths as text; a feed
      that does not exist is \<open>None\<close>, and one that exists is the table \<^verbatim>\<open>read_csv\<close>
      makes of it. The clock holds
      what \<^verbatim>\<open>datetime.now(timezone.utc)\<close> returns at the start and what
      \<^verbatim>\<open>CURRENT_TIMESTAMP\<close> and \<^verbatim>\<open>CURRENT_DATE\<close> are in the statements that read them.
      The Python variable \<^verbatim>\<open>processed_at\<close> is assigned and never read. The statements run
      in the order of the source, and the first one that raises ends the run.\<close>
  "main eng clk APPLICATIONS_CSV LMS_CSV applications_feed lms_feed =
     (case applications_feed of
        None \<Rightarrow> Inl (FileNotFoundError (''Missing '' @ APPLICATIONS_CSV))
      | Some raw_applications \<Rightarrow>
     (case lms_feed of
        None \<Rightarrow> Inl (FileNotFoundError (''Missing '' @ LMS_CSV))
      | Some raw_lms \<Rightarrow>
          (let processed_at = now_utc clk
           in case raw_applications_bad raw_applications of
                Inl e \<Rightarrow> Inl e
              | Inr bad \<Rightarrow>
             (case raw_applications_good raw_applications of
                Inl e \<Rightarrow> Inl e
              | Inr good \<Rightarrow>
                 (let cleaned = cleaned_applications eng (ts_cleaned_applications clk) good;
                      lms = lms_cleaned eng (ts_lms_cleaned clk) raw_lms;
                      portfolio = loan_portfolio (current_date clk) cleaned lms;
                      report = data_quality_report eng (ts_data_quality_report clk)
                                 cleaned lms bad
                  in Inr \<lparr> out_cleaned_applications = cleaned,
                           out_lms_cleaned = lms,
                           out_loan_portfolio = portfolio,
                           out_data_quality_report = report \<rparr>)))))"

subsection \<open>A small engine and sample rows for the worked examples\<close>

definition digit_value :: "char \<Rightarrow> int option" where
  "digit_value c = map_of (zip ''0123456789'' [0, 1, 2, 3, 4, 5, 6, 7, 8, 9]) c"

fun decimal :: "int \<Rightarrow> string \<Rightarrow> int option" where
  "decimal acc [] = Some acc"
| "decimal acc (c # cs) =
     (case digit_value c of None \<Rightarrow> None | Some d \<Rightarrow> decimal (10 * acc + d) cs)"

definition parse_integer :: "string \<Rightarrow> int option" where
  "parse_integer s =
     (case s of
        [] \<Rightarrow> None
      | c # cs \<Rightarrow>
          if c = CHR ''-'' then (if cs = [] then None else map_option uminus (decimal 0 cs))
          else decimal 0 s)"

definition parse_date :: "string \<Rightarrow> date option" where
  "parse_date s =
     (if length s = 10 \<and> s ! 4 = CHR ''-'' \<and> s ! 7 = CHR ''-'' then
        (case (decimal 0 (take 4 s), decimal 0 (take 2 (drop 5 s)), decimal 0 (drop 8 s)) of
           (Some y, Some m, Some d) \<Rightarrow> Some (Date y m d)
         | _ \<Rightarrow> None)
      else None)"

definition lower_char :: "char \<Rightarrow> char" where
  "lower_char c =
     (case map_of (zip ''ABCDEFGHIJKLMNOPQRSTUVWXYZ'' ''abcdefghijklmnopqrstuvwxyz'') c of
        None \<Rightarrow> c
      | Some l \<Rightarrow> l)"

definition sample_engine :: "int engine" where
  \<comment> \<open>Whole numbers stand for DOUBLE, the casts read plain decimal text and ISO dates,
      \<^verbatim>\<open>LOWER\<close> maps the ASCII letters, and Berlin is one hour ahead of UTC.\<close>
  "sample_engine =
     \<lparr> try_cast_double = parse_integer,
       try_cast_integer = parse_integer,
       try_cast_date = parse_date,
       double_le_zero = (\<lambda>x. x \<le> 0),
       double_lt_zero = (\<lambda>x. x < 0),
       double_div = (\<lambda>x y. x div y),
       lower = map lower_char,
       utc_offset_berlin = (\<lambda>t. 3600000000) \<rparr>"

definition sample_raw_application :: "varchar \<Rightarrow> varchar \<Rightarrow> varchar \<Rightarrow> varchar \<Rightarrow> raw_application" where
  "sample_raw_application app_id email score overflow =
     \<lparr> raw_application.application_id = app_id,
       raw_application.customer_email = email,
       raw_application.installer_partner_id = Some ''P01'',
       raw_application.installation_type = Some ''solar_pv'',
       raw_application.system_size_kwp = Some ''8'',
       raw_application.loan_amount_eur = Some ''12000'',
       raw_application.loan_term_months = Some ''60'',
       raw_application.application_date = Some ''2024-01-15'',
       raw_application.credit_score = score,
       raw_application.annual_income_eur = Some ''48000'',
       raw_application.postal_code = Some ''10115'',
       raw_application.status = Some ''Approved'',
       raw_application.column12 = overflow \<rparr>"

definition sample_application :: "varchar \<Rightarrow> varchar \<Rightarrow> varchar \<Rightarrow> good_application" where
  "sample_application app_id email score = select_good (sample_raw_application app_id email score None)"

definition sample_lms :: "varchar \<Rightarrow> varchar \<Rightarrow> varchar \<Rightarrow> varchar \<Rightarrow> raw_lms_row" where
  "sample_lms loan app_id disbursed dpd =
     \<lparr> raw_lms_row.loan_id = loan,
       raw_lms_row.application_id = app_id,
       raw_lms_row.disbursement_date = disbursed,
       raw_lms_row.current_balance_eur = Some ''9000'',
       raw_lms_row.days_past_due = dpd,
       raw_lms_row.payment_status = Some ''Active'',
       raw_lms_row.last_payment_date = Some ''2024-03-01'',
       raw_lms_row.next_payment_due = Some ''2024-04-01'' \<rparr>"

definition sample_applications_csv :: string where
  "sample_applications_csv = ''/srv/pipeline/data/applications_expanded.csv''"

definition sample_lms_csv :: string where
  "sample_lms_csv = ''/srv/pipeline/data/lms_updates_expanded.csv''"

definition sample_clock :: clock where
  \<comment> \<open>The run starts at 2023-11-14 22:13:20 UTC; the three statements that read
      \<^verbatim>\<open>CURRENT_TIMESTAMP\<close> start 1, 3 and 6 seconds later.\<close>
  "sample_clock =
     \<lparr> now_utc = 1700000000000000,
       ts_cleaned_applications = 1700000001000000,
       ts_lms_cleaned = 1700000003000000,
       ts_data_quality_report = 1700000006000000,
       current_date = Date 2023 11 14 \<rparr>"

section \<open>Properties\<close>

subsection \<open>Rows through the stages\<close>

lemmas sql_defs = sql_where_def sql_and_def sql_or_def sql_not_def sql_is_null_def
  sql_is_not_null_def sql_cmp_def sql_eq_def sql_ne_def sql_lt_def sql_gt_def sql_le_def
  sql_ge_def sql_between_def sql_trim_def

lemma quarantined_iff:
  "sql_where (sql_and (sql_is_not_null c) (sql_ne (sql_trim c) (Some ''''))) =
     (\<exists>s. c = Some s \<and> trim_spaces s \<noteq> '''')"
  by (cases c) (simp_all add: sql_defs)

lemma good_iff:
  "sql_where (sql_or (sql_is_null c) (sql_eq (sql_trim c) (Some ''''))) =
     (\<not> (\<exists>s. c = Some s \<and> trim_spaces s \<noteq> ''''))"
  by (cases c) (simp_all add: sql_defs)

lemma risk_category_row:
  "risk_category (cleaned_application_row eng now b) =
     Some (case credit_score b of
             None \<Rightarrow> ''Unknown''
           | Some n \<Rightarrow>
               if n < 300 \<or> 850 < n then ''Invalid''
               else if 750 \<le> n then ''Excellent''
               else if 700 \<le> n then ''Good''
               else if 650 \<le> n then ''Fair''
               else ''Poor'')"
  by (cases "credit_score b")
     (simp_all add: cleaned_application_row_def cleaned_application.defs base_application.defs sql_defs)

lemma credit_score_row:
  "credit_score (cleaned_application_row eng now b) = credit_score b"
  by (simp add: cleaned_application_row_def cleaned_application.defs base_application.defs)

lemma delinquency_bucket_row:
  "cleaned_lms.delinquency_bucket (cleaned_lms_row eng now b) =
     (case typed_lms.days_past_due b of
        None \<Rightarrow> None
      | Some n \<Rightarrow>
          Some (if n = 0 then ''Current''
                else if 1 \<le> n \<and> n \<le> 30 then ''Late''
                else if 31 \<le> n \<and> n \<le> 90 then ''Delinquent''
                else ''Default''))"
  by (cases "typed_lms.days_past_due b")
     (simp_all add: cleaned_lms_row_def cleaned_lms.defs base_lms.defs sql_defs)

lemma days_past_due_row:
  "typed_lms.days_past_due (cleaned_lms_row eng now b) = typed_lms.days_past_due b"
  by (simp add: cleaned_lms_row_def cleaned_lms.defs base_lms.defs)

lemma days_past_due_base:
  "typed_lms.days_past_due (lms_base eng d1 d2 t) = typed_lms.days_past_due t"
  by (simp add: lms_base_def base_lms.defs typed_lms.defs)

lemma flag_days_past_due_negative_row:
  "base_lms.flag_days_past_due_negative (cleaned_lms_row eng now (lms_base eng d1 d2 t)) =
     Some (\<exists>n. typed_lms.days_past_due t = Some n \<and> n < 0)"
  by (cases "typed_lms.days_past_due t")
     (simp_all add: cleaned_lms_row_def lms_base_def cleaned_lms.defs base_lms.defs typed_lms.defs sql_defs)

lemma portfolio_bucket:
  "loan_portfolio_row.delinquency_bucket (select_portfolio today (a, l)) =
     (case col l typed_lms.days_past_due of
        None \<Rightarrow> None
      | Some n \<Rightarrow>
          Some (if n = 0 then ''Current''
                else if 1 \<le> n \<and> n \<le> 30 then ''Late''
                else if 31 \<le> n \<and> n \<le> 90 then ''Delinquent''
                else ''Default''))"
  by (cases "col l typed_lms.days_past_due")
     (simp_all add: select_portfolio_def loan_portfolio_row.defs cleaned_application.defs sql_defs)

lemma portfolio_days_past_due:
  "loan_portfolio_row.days_past_due (select_portfolio today (a, l)) = col l typed_lms.days_past_due"
  by (simp add: select_portfolio_def loan_portfolio_row.defs cleaned_application.defs)

lemma portfolio_flag_dpd:
  "loan_portfolio_row.flag_days_past_due_negative (select_portfolio today (a, l)) =
     col l base_lms.flag_days_past_due_negative"
  by (simp add: select_portfolio_def loan_portfolio_row.defs cleaned_application.defs)

lemma left_join_iff:
  "(a, l) \<in> set (left_join c as ls) \<longleftrightarrow>
     a \<in> set as \<and>
     ((l = None \<and> (\<forall>x \<in> set ls. \<not> sql_where (c a x)))
      \<or> (\<exists>x \<in> set ls. l = Some x \<and> sql_where (c a x)))"
  by (auto simp: left_join_def Let_def filter_empty_conv split: if_splits)

lemma lms_cleaned_rows:
  "l \<in> set (lms_cleaned eng now raw_lms) \<Longrightarrow>
     \<exists>t. l = cleaned_lms_row eng now
                (lms_base eng (lms_loan_id_dupes raw_lms) (lms_app_id_dupes raw_lms) t)"
  by (auto simp: lms_cleaned_def)

lemma loan_portfolio_rows:
  assumes "p \<in> set (loan_portfolio today cleaned lms)"
  shows "\<exists>a l. a \<in> set cleaned \<and> (l = None \<or> (\<exists>x \<in> set lms. l = Some x))
            \<and> p = select_portfolio today (a, l)"
proof -
  from assms obtain a l where
    al: "(a, l) \<in> set (left_join
           (\<lambda>a l. sql_eq (typed_application.application_id a) (typed_lms.application_id l))
           cleaned lms)"
    and p: "p = select_portfolio today (a, l)"
    by (auto simp: loan_portfolio_def)
  from al have "a \<in> set cleaned" and "l = None \<or> (\<exists>x \<in> set lms. l = Some x)"
    by (auto simp: left_join_iff)
  with p show ?thesis by blast
qed


lemma lms_negative_row:
  assumes "typed_lms.days_past_due t = Some n" and "n < 0"
  shows "cleaned_lms.delinquency_bucket (cleaned_lms_row eng now (lms_base eng d1 d2 t)) = Some ''Default''"
    and "base_lms.flag_days_past_due_negative (cleaned_lms_row eng now (lms_base eng d1 d2 t)) = Some True"
proof -
  show "cleaned_lms.delinquency_bucket (cleaned_lms_row eng now (lms_base eng d1 d2 t)) = Some ''Default''"
    unfolding delinquency_bucket_row days_past_due_base using assms by simp
  show "base_lms.flag_days_past_due_negative (cleaned_lms_row eng now (lms_base eng d1 d2 t)) = Some True"
    unfolding flag_days_past_due_negative_row using assms by simp
qed

lemma credit_score_base:
  "credit_score (base eng dupes t) = credit_score t"
  by (simp add: base_def base_application.defs typed_application.defs)

lemma credit_score_typed:
  "credit_score (typed eng g) =
     sql_try_cast (try_cast_integer eng) (good_application.credit_score g)"
  by (simp add: typed_def)

lemma days_past_due_typed:
  "typed_lms.days_past_due (lms_typed eng r) =
     sql_try_cast (try_cast_integer eng) (raw_lms_row.days_past_due r)"
  by (simp add: lms_typed_def)

lemmas sample_cast_defs =
  sql_try_cast_def sample_engine_def parse_integer_def parse_date_def digit_value_def

lemma application_id_row:
  "typed_application.application_id (cleaned_application_row eng now b) =
     typed_application.application_id b"
  by (simp add: cleaned_application_row_def cleaned_application.defs base_application.defs)

lemma application_id_base:
  "typed_application.application_id (base eng dupes t) = typed_application.application_id t"
  by (simp add: base_def base_application.defs typed_application.defs)

lemma application_id_typed:
  "typed_application.application_id (typed eng g) = good_application.application_id g"
  by (simp add: typed_def)

lemma lms_application_id_row:
  "typed_lms.application_id (cleaned_lms_row eng now b) = typed_lms.application_id b"
  by (simp add: cleaned_lms_row_def cleaned_lms.defs base_lms.defs)

lemma lms_application_id_base:
  "typed_lms.application_id (lms_base eng d1 d2 t) = typed_lms.application_id t"
  by (simp add: lms_base_def base_lms.defs typed_lms.defs)

lemma lms_application_id_typed:
  "typed_lms.application_id (lms_typed eng r) = raw_lms_row.application_id r"
  by (simp add: lms_typed_def)

lemma disbursement_date_row:
  "typed_lms.disbursement_date (cleaned_lms_row eng now b) = typed_lms.disbursement_date b"
  by (simp add: cleaned_lms_row_def cleaned_lms.defs base_lms.defs)

lemma disbursement_date_base:
  "typed_lms.disbursement_date (lms_base eng d1 d2 t) = typed_lms.disbursement_date t"
  by (simp add: lms_base_def base_lms.defs typed_lms.defs)

lemma disbursement_date_typed:
  "typed_lms.disbursement_date (lms_typed eng r) =
     sql_try_cast (try_cast_date eng) (raw_lms_row.disbursement_date r)"
  by (simp add: lms_typed_def)

lemma loan_id_row:
  "typed_lms.loan_id (cleaned_lms_row eng now b) = typed_lms.loan_id b"
  by (simp add: cleaned_lms_row_def cleaned_lms.defs base_lms.defs)

lemma loan_id_base:
  "typed_lms.loan_id (lms_base eng d1 d2 t) = typed_lms.loan_id t"
  by (simp add: lms_base_def base_lms.defs typed_lms.defs)

lemma loan_id_typed:
  "typed_lms.loan_id (lms_typed eng r) = raw_lms_row.loan_id r"
  by (simp add: lms_typed_def)

lemmas through_stages =
  application_id_row application_id_base application_id_typed
  credit_score_row credit_score_base credit_score_typed
  lms_application_id_row lms_application_id_base lms_application_id_typed
  days_past_due_row days_past_due_base days_past_due_typed
  disbursement_date_row disbursement_date_base disbursement_date_typed
  loan_id_row loan_id_base loan_id_typed

lemma portfolio_application:
  "cleaned_application.truncate (select_portfolio today (a, l)) = a"
  by (simp add: select_portfolio_def cleaned_application.defs)

lemma portfolio_application_id:
  "typed_application.application_id (select_portfolio today (a, l)) =
     typed_application.application_id a"
  by (simp add: select_portfolio_def cleaned_application.defs)

lemma portfolio_loan_id:
  "loan_portfolio_row.loan_id (select_portfolio today (a, l)) = col l typed_lms.loan_id"
  by (simp add: select_portfolio_def loan_portfolio_row.defs cleaned_application.defs)

lemma portfolio_disbursement_date:
  "loan_portfolio_row.disbursement_date (select_portfolio today (a, l)) =
     col l typed_lms.disbursement_date"
  by (simp add: select_portfolio_def loan_portfolio_row.defs cleaned_application.defs)

lemma portfolio_months:
  "months_since_disbursement (select_portfolio today (a, l)) =
     (case col l typed_lms.disbursement_date of
        None \<Rightarrow> None
      | Some d \<Rightarrow> Some (date_diff_month d today))"
  by (cases "col l typed_lms.disbursement_date")
     (simp_all add: select_portfolio_def loan_portfolio_row.defs cleaned_application.defs sql_defs)

lemma portfolio_unmatched:
  "loan_portfolio_row.loan_id (select_portfolio today (a, None)) = None
   \<and> lms_application_id (select_portfolio today (a, None)) = None
   \<and> loan_portfolio_row.disbursement_date (select_portfolio today (a, None)) = None
   \<and> loan_portfolio_row.current_balance_eur (select_portfolio today (a, None)) = None
   \<and> loan_portfolio_row.days_past_due (select_portfolio today (a, None)) = None
   \<and> loan_portfolio_row.payment_status (select_portfolio today (a, None)) = None
   \<and> loan_portfolio_row.last_payment_date (select_portfolio today (a, None)) = None
   \<and> loan_portfolio_row.next_payment_due (select_portfolio today (a, None)) = None
   \<and> loan_portfolio_row.flag_loan_id_null (select_portfolio today (a, None)) = None
   \<and> flag_application_id_null_1 (select_portfolio today (a, None)) = None
   \<and> loan_portfolio_row.flag_application_id_invalid_format (select_portfolio today (a, None)) = None
   \<and> loan_portfolio_row.flag_current_balance_negative (select_portfolio today (a, None)) = None
   \<and> loan_portfolio_row.flag_days_past_due_negative (select_portfolio today (a, None)) = None
   \<and> loan_portfolio_row.flag_last_payment_before_disbursement (select_portfolio today (a, None)) = None
   \<and> loan_portfolio_row.flag_next_due_before_disbursement (select_portfolio today (a, None)) = None
   \<and> loan_portfolio_row.flag_last_payment_after_next_due (select_portfolio today (a, None)) = None
   \<and> lms_data_quality_flags (select_portfolio today (a, None)) = None
   \<and> lms_processed_at (select_portfolio today (a, None)) = None
   \<and> loan_portfolio_row.delinquency_bucket (select_portfolio today (a, None)) = None
   \<and> months_since_disbursement (select_portfolio today (a, None)) = None"
  by (simp add: select_portfolio_def loan_portfolio_row.defs cleaned_application.defs col_def
        sql_defs)

lemma loan_portfolio_pairs:
  assumes "p \<in> set (loan_portfolio today cleaned lms)"
  shows "\<exists>a l. (a, l) \<in> set (left_join
            (\<lambda>a l. sql_eq (typed_application.application_id a) (typed_lms.application_id l))
            cleaned lms)
          \<and> p = select_portfolio today (a, l)"
  using assms by (auto simp: loan_portfolio_def)

lemmas portfolio_eval =
  loan_portfolio_def left_join_def sql_where_def sql_eq_def sql_cmp_def col_def
  portfolio_application_id portfolio_loan_id portfolio_disbursement_date portfolio_months
  portfolio_bucket portfolio_days_past_due portfolio_flag_dpd

lemmas sample_rows =
  sample_application_def sample_raw_application_def select_good_def sample_lms_def

lemma count_rows_pos_iff: "0 < count_rows k ks \<longleftrightarrow> k \<in> set ks"
  by (simp add: count_rows_def filter_empty_conv)

lemma dupes_iff:
  "k \<in> set (map fst (group_by_having_count_gt1 ks)) \<longleftrightarrow> 1 < count_rows k ks"
proof
  assume "k \<in> set (map fst (group_by_having_count_gt1 ks))"
  then show "1 < count_rows k ks"
    by (auto simp: group_by_having_count_gt1_def)
next
  assume c: "1 < count_rows k ks"
  then have "0 < count_rows k ks" by simp
  then have "k \<in> set ks" by (simp only: count_rows_pos_iff)
  with c have "(k, count_rows k ks) \<in> set (group_by_having_count_gt1 ks)"
    by (simp add: group_by_having_count_gt1_def)
  then show "k \<in> set (map fst (group_by_having_count_gt1 ks))"
    by force
qed

lemma flag_duplicate_row:
  "base_application.flag_application_id_duplicate
     (cleaned_application_row eng now (base eng dupes (typed eng g))) =
   sql_in_subquery (good_application.application_id g) (map fst dupes)"
  by (simp add: cleaned_application_row_def base_def typed_def
        cleaned_application.defs base_application.defs typed_application.defs)

lemmas dupes_eval =
  cleaned_applications_def flag_duplicate_row app_dupes_def group_by_having_count_gt1_def
  count_rows_def sql_in_subquery_def

lemma sum_flag_counts_true_rows:
  "sum_flag flag rows =
     (if \<forall>r \<in> set rows. flag r = None then None
      else Some (int (length (filter (\<lambda>r. flag r = Some True) rows))))"
proof -
  have total: "sum_list (map (\<lambda>x. case x of None \<Rightarrow> 0 | Some v \<Rightarrow> v)
                   (map (\<lambda>r. cast_bool_int (flag r)) rows))
      = int (length (filter (\<lambda>r. flag r = Some True) rows))"
    by (induction rows) (auto simp: cast_bool_int_def split: option.splits)
  have nulls: "list_all (\<lambda>x. x = None) (map (\<lambda>r. cast_bool_int (flag r)) rows)
      \<longleftrightarrow> (\<forall>r \<in> set rows. flag r = None)"
    by (simp add: list_all_iff cast_bool_int_def)
  show ?thesis
    unfolding sum_flag_def sql_sum_def total nulls ..
qed

lemma processed_at_row:
  "cleaned_application.processed_at (cleaned_application_row eng now b) =
     date_trunc_second (at_time_zone_berlin eng now)"
  by (simp add: cleaned_application_row_def cleaned_application.defs base_application.defs)

lemma lms_processed_at_row:
  "cleaned_lms.processed_at (cleaned_lms_row eng now b) =
     date_trunc_second (at_time_zone_berlin eng now)"
  by (simp add: cleaned_lms_row_def cleaned_lms.defs base_lms.defs)

lemma customer_email_row:
  "typed_application.customer_email (cleaned_application_row eng now (base eng dupes (typed eng g))) =
     sql_regexp_replace_spaces (sql_lower eng (good_application.customer_email g))"
  by (simp add: cleaned_application_row_def base_def typed_def
        cleaned_application.defs base_application.defs typed_application.defs)

lemma match_iff:
  "sql_where (sql_eq x y) \<longleftrightarrow> (\<exists>s. x = Some s \<and> y = Some s)"
  by (cases x; cases y) (auto simp: sql_where_def sql_eq_def sql_cmp_def)

lemma left_join_length:
  "length (left_join c as ls) =
     sum_list (map (\<lambda>a. max 1 (length (filter (\<lambda>l. sql_where (c a l)) ls))) as)"
proof -
  have one: "length (let ms = filter (\<lambda>l. sql_where (c a l)) ls
                     in if ms = [] then [(a, None)] else map (\<lambda>l. (a, Some l)) ms)
      = max 1 (length (filter (\<lambda>l. sql_where (c a l)) ls))" for a
    by (cases "filter (\<lambda>l. sql_where (c a l)) ls") (simp_all add: Let_def)
  show ?thesis
    unfolding left_join_def length_concat map_map comp_def one ..
qed

lemma portfolio_matched:
  "(loan_portfolio_row.loan_id (select_portfolio today (a, Some l)),
    lms_application_id (select_portfolio today (a, Some l)),
    loan_portfolio_row.disbursement_date (select_portfolio today (a, Some l)),
    loan_portfolio_row.current_balance_eur (select_portfolio today (a, Some l)),
    loan_portfolio_row.days_past_due (select_portfolio today (a, Some l)),
    loan_portfolio_row.payment_status (select_portfolio today (a, Some l)),
    loan_portfolio_row.last_payment_date (select_portfolio today (a, Some l)),
    loan_portfolio_row.next_payment_due (select_portfolio today (a, Some l)),
    loan_portfolio_row.flag_loan_id_null (select_portfolio today (a, Some l)),
    flag_application_id_null_1 (select_portfolio today (a, Some l)),
    loan_portfolio_row.flag_application_id_invalid_format (select_portfolio today (a, Some l)),
    loan_portfolio_row.flag_current_balance_negative (select_portfolio today (a, Some l)),
    loan_portfolio_row.flag_days_past_due_negative (select_portfolio today (a, Some l)),
    loan_portfolio_row.flag_last_payment_before_disbursement (select_portfolio today (a, Some l)),
    loan_portfolio_row.flag_next_due_before_disbursement (select_portfolio today (a, Some l)),
    loan_portfolio_row.flag_last_payment_after_next_due (select_portfolio today (a, Some l)),
    lms_data_quality_flags (select_portfolio today (a, Some l)),
    lms_processed_at (select_portfolio today (a, Some l)))
   = (typed_lms.loan_id l, typed_lms.application_id l, typed_lms.disbursement_date l,
      typed_lms.current_balance_eur l, typed_lms.days_past_due l, typed_lms.payment_status l,
      typed_lms.last_payment_date l, typed_lms.next_payment_due l,
      base_lms.flag_loan_id_null l, base_lms.flag_application_id_null l,
      base_lms.flag_application_id_invalid_format l, base_lms.flag_current_balance_negative l,
      base_lms.flag_days_past_due_negative l, base_lms.flag_last_payment_before_disbursement l,
      base_lms.flag_next_due_before_disbursement l, base_lms.flag_last_payment_after_next_due l,
      Some (cleaned_lms.data_quality_flags l), Some (cleaned_lms.processed_at l))"
  by (simp add: select_portfolio_def loan_portfolio_row.defs cleaned_application.defs col_def)

lemma portfolio_unmatched_columns:
  "(loan_portfolio_row.loan_id (select_portfolio today (a, None)),
    lms_application_id (select_portfolio today (a, None)),
    loan_portfolio_row.disbursement_date (select_portfolio today (a, None)),
    loan_portfolio_row.current_balance_eur (select_portfolio today (a, None)),
    loan_portfolio_row.days_past_due (select_portfolio today (a, None)),
    loan_portfolio_row.payment_status (select_portfolio today (a, None)),
    loan_portfolio_row.last_payment_date (select_portfolio today (a, None)),
    loan_portfolio_row.next_payment_due (select_portfolio today (a, None)),
    loan_portfolio_row.flag_loan_id_null (select_portfolio today (a, None)),
    flag_application_id_null_1 (select_portfolio today (a, None)),
    loan_portfolio_row.flag_application_id_invalid_format (select_portfolio today (a, None)),
    loan_portfolio_row.flag_current_balance_negative (select_portfolio today (a, None)),
    loan_portfolio_row.flag_days_past_due_negative (select_portfolio today (a, None)),
    loan_portfolio_row.flag_last_payment_before_disbursement (select_portfolio today (a, None)),
    loan_portfolio_row.flag_next_due_before_disbursement (select_portfolio today (a, None)),
    loan_portfolio_row.flag_last_payment_after_next_due (select_portfolio today (a, None)),
    lms_data_quality_flags (select_portfolio today (a, None)),
    lms_processed_at (select_portfolio today (a, None)),
    loan_portfolio_row.delinquency_bucket (select_portfolio today (a, None)),
    months_since_disbursement (select_portfolio today (a, None)))
   = (None, None, None, None, None, None, None, None, None, None,
      None, None, None, None, None, None, None, None, None, None)"
  using portfolio_unmatched [of today a] by simp

lemma status_row:
  "typed_application.status (cleaned_application_row eng now b) = typed_application.status b"
  by (simp add: cleaned_application_row_def cleaned_application.defs base_application.defs)

lemma status_base:
  "typed_application.status (base eng dupes t) = typed_application.status t"
  by (simp add: base_def base_application.defs typed_application.defs)

lemma status_typed:
  "typed_application.status (typed eng g) = sql_lower eng (good_application.status g)"
  by (simp add: typed_def)

lemma portfolio_status:
  "typed_application.status (select_portfolio today (a, l)) = typed_application.status a"
  by (simp add: select_portfolio_def cleaned_application.defs)

subsection \<open>Quarantine\<close>

text \<open>
  On a raw table that has the column \<^verbatim>\<open>column12\<close> the two statements split the rows in
  two: a row is quarantined exactly when \<^verbatim>\<open>column12\<close> is not NULL and not blank after
  trimming; every other row becomes a good row, which carries the twelve named fields of
  the raw row and no overflow column; the two counts add up to the number of raw rows.
\<close>

lemma quarantine_partition:
  "raw_applications_bad (Columns13 rows) =
     Inr (filter (\<lambda>r. \<exists>s. column12 r = Some s \<and> trim_spaces s \<noteq> '''') rows)
   \<and> raw_applications_good (Columns13 rows) =
     Inr (map select_good
            (filter (\<lambda>r. \<not> (\<exists>s. column12 r = Some s \<and> trim_spaces s \<noteq> '''')) rows))
   \<and> length (projr (raw_applications_bad (Columns13 rows)))
       + length (projr (raw_applications_good (Columns13 rows))) = length rows
   \<and> good_application.application_id (select_good r) = raw_application.application_id r
   \<and> good_application.customer_email (select_good r) = raw_application.customer_email r
   \<and> good_application.installer_partner_id (select_good r) = raw_application.installer_partner_id r
   \<and> good_application.installation_type (select_good r) = raw_application.installation_type r
   \<and> good_application.system_size_kwp (select_good r) = raw_application.system_size_kwp r
   \<and> good_application.loan_amount_eur (select_good r) = raw_application.loan_amount_eur r
   \<and> good_application.loan_term_months (select_good r) = raw_application.loan_term_months r
   \<and> good_application.application_date (select_good r) = raw_application.application_date r
   \<and> good_application.credit_score (select_good r) = raw_application.credit_score r
   \<and> good_application.annual_income_eur (select_good r) = raw_application.annual_income_eur r
   \<and> good_application.postal_code (select_good r) = raw_application.postal_code r
   \<and> good_application.status (select_good r) = raw_application.status r"
proof -
  have bad: "raw_applications_bad (Columns13 rows) =
      Inr (filter (\<lambda>r. \<exists>s. column12 r = Some s \<and> trim_spaces s \<noteq> '''') rows)"
    unfolding raw_applications_bad_def quarantined_iff by simp
  have good: "raw_applications_good (Columns13 rows) =
      Inr (map select_good
             (filter (\<lambda>r. \<not> (\<exists>s. column12 r = Some s \<and> trim_spaces s \<noteq> '''')) rows))"
    unfolding raw_applications_good_def good_iff by simp
  have len: "length (projr (raw_applications_bad (Columns13 rows)))
       + length (projr (raw_applications_good (Columns13 rows))) = length rows"
    unfolding bad good sum.sel length_map by (rule sum_length_filter_compl)
  show ?thesis
    using bad good len by (simp add: select_good_def)
qed

lemma quarantine_example:
  "raw_applications_bad (Columns13
     [sample_raw_application (Some ''APP1'') None None (Some ''x''),
      sample_raw_application (Some ''APP2'') None None (Some [CHR 0x20, CHR 0xC2, CHR 0xA0]),
      sample_raw_application (Some ''APP3'') None None None])
   = Inr [sample_raw_application (Some ''APP1'') None None (Some ''x'')]
   \<and> raw_applications_good (Columns13
     [sample_raw_application (Some ''APP1'') None None (Some ''x''),
      sample_raw_application (Some ''APP2'') None None (Some [CHR 0x20, CHR 0xC2, CHR 0xA0]),
      sample_raw_application (Some ''APP3'') None None None])
   = Inr [sample_application (Some ''APP2'') None None,
          sample_application (Some ''APP3'') None None]"
  by (simp add: raw_applications_bad_def raw_applications_good_def sql_defs
        sample_raw_application_def sample_application_def select_good_def
        trim_spaces_def space_separators_def is_continuation_def)

text \<open>
  C1. On a feed in which no line has a thirteenth field the raw table has no column
  \<^verbatim>\<open>column12\<close>: the statement that builds raw_applications_bad does not bind, the run
  ends with that error, and no row is classified as quarantined or good.
\<close>

theorem clean_feed_aborts:
  "raw_applications_bad (Columns12 [sample_application (Some ''APP1'') None (Some ''700'')])
     = Inl column12_not_found
   \<and> raw_applications_good (Columns12 [sample_application (Some ''APP1'') None (Some ''700'')])
     = Inl column12_not_found
   \<and> main sample_engine sample_clock sample_applications_csv sample_lms_csv
       (Some (Columns12 [sample_application (Some ''APP1'') None (Some ''700'')]))
       (Some [sample_lms (Some ''L1'') (Some ''APP1'') None None])
     = Inl column12_not_found"
  by (simp add: main_def raw_applications_bad_def raw_applications_good_def)

subsection \<open>Risk category\<close>

text \<open>
  C2. Every row of cleaned_applications has exactly one of the six risk categories, chosen
  in the documented order: NULL score, Unknown; score below 300 or above 850, Invalid;
  750 and above, Excellent; 700 to 749, Good; 650 to 699, Fair; otherwise Poor. The scores
  749/750, 699/700 and 649/650 fall on the two sides of their boundaries.
\<close>

theorem risk_category_total:
  "\<forall>c \<in> set (cleaned_applications eng now good).
     risk_category c =
       Some (case credit_score c of
               None \<Rightarrow> ''Unknown''
             | Some n \<Rightarrow>
                 if n < 300 \<or> 850 < n then ''Invalid''
                 else if 750 \<le> n then ''Excellent''
                 else if 700 \<le> n then ''Good''
                 else if 650 \<le> n then ''Fair''
                 else ''Poor'')
     \<and> risk_category c \<in> {Some ''Unknown'', Some ''Invalid'', Some ''Excellent'',
                               Some ''Good'', Some ''Fair'', Some ''Poor''}
     \<and> (credit_score c = Some 749 \<longrightarrow> risk_category c = Some ''Good'')
     \<and> (credit_score c = Some 750 \<longrightarrow> risk_category c = Some ''Excellent'')
     \<and> (credit_score c = Some 699 \<longrightarrow> risk_category c = Some ''Fair'')
     \<and> (credit_score c = Some 700 \<longrightarrow> risk_category c = Some ''Good'')
     \<and> (credit_score c = Some 649 \<longrightarrow> risk_category c = Some ''Poor'')
     \<and> (credit_score c = Some 650 \<longrightarrow> risk_category c = Some ''Fair'')"
proof
  fix c
  assume "c \<in> set (cleaned_applications eng now good)"
  then obtain b where c: "c = cleaned_application_row eng now b"
    by (auto simp: cleaned_applications_def)
  show "risk_category c =
       Some (case credit_score c of
               None \<Rightarrow> ''Unknown''
             | Some n \<Rightarrow>
                 if n < 300 \<or> 850 < n then ''Invalid''
                 else if 750 \<le> n then ''Excellent''
                 else if 700 \<le> n then ''Good''
                 else if 650 \<le> n then ''Fair''
                 else ''Poor'')
     \<and> risk_category c \<in> {Some ''Unknown'', Some ''Invalid'', Some ''Excellent'',
                               Some ''Good'', Some ''Fair'', Some ''Poor''}
     \<and> (credit_score c = Some 749 \<longrightarrow> risk_category c = Some ''Good'')
     \<and> (credit_score c = Some 750 \<longrightarrow> risk_category c = Some ''Excellent'')
     \<and> (credit_score c = Some 699 \<longrightarrow> risk_category c = Some ''Fair'')
     \<and> (credit_score c = Some 700 \<longrightarrow> risk_category c = Some ''Good'')
     \<and> (credit_score c = Some 649 \<longrightarrow> risk_category c = Some ''Poor'')
     \<and> (credit_score c = Some 650 \<longrightarrow> risk_category c = Some ''Fair'')"
    unfolding c risk_category_row credit_score_row
    by (cases "credit_score b") simp_all
qed

theorem risk_category_total_witness:
  "map (\<lambda>c. (credit_score c, risk_category c))
     (cleaned_applications sample_engine 0
        [sample_application (Some ''APP1'') None None,
         sample_application (Some ''APP2'') None (Some ''299''),
         sample_application (Some ''APP3'') None (Some ''649''),
         sample_application (Some ''APP4'') None (Some ''650''),
         sample_application (Some ''APP5'') None (Some ''699''),
         sample_application (Some ''APP6'') None (Some ''700''),
         sample_application (Some ''APP7'') None (Some ''749''),
         sample_application (Some ''APP8'') None (Some ''750''),
         sample_application (Some ''APP9'') None (Some ''851'')])
   = [(None, Some ''Unknown''), (Some 299, Some ''Invalid''), (Some 649, Some ''Poor''),
      (Some 650, Some ''Fair''), (Some 699, Some ''Fair''), (Some 700, Some ''Good''),
      (Some 749, Some ''Good''), (Some 750, Some ''Excellent''), (Some 851, Some ''Invalid'')]"
  using risk_category_total [of sample_engine 0
        "[sample_application (Some ''APP1'') None None,
         sample_application (Some ''APP2'') None (Some ''299''),
         sample_application (Some ''APP3'') None (Some ''649''),
         sample_application (Some ''APP4'') None (Some ''650''),
         sample_application (Some ''APP5'') None (Some ''699''),
         sample_application (Some ''APP6'') None (Some ''700''),
         sample_application (Some ''APP7'') None (Some ''749''),
         sample_application (Some ''APP8'') None (Some ''750''),
         sample_application (Some ''APP9'') None (Some ''851'')]"]
  by (simp add: cleaned_applications_def through_stages sample_rows sample_cast_defs)

subsection \<open>Delinquency bucket\<close>

text \<open>
  C3. For every row of lms_cleaned the delinquency bucket follows the documented mapping of
  days_past_due: NULL gives NULL, 0 gives Current, 1 to 30 Late, 31 to 90 Delinquent, and
  more than 90 Default; in particular 30 is Late, 31 and 90 are Delinquent, 91 is Default.
\<close>

theorem delinquency_bucket_mapping:
  "\<forall>l \<in> set (lms_cleaned eng now raw_lms).
     (typed_lms.days_past_due l = None \<longrightarrow> cleaned_lms.delinquency_bucket l = None)
     \<and> (typed_lms.days_past_due l = Some 0 \<longrightarrow> cleaned_lms.delinquency_bucket l = Some ''Current'')
     \<and> (\<forall>n. typed_lms.days_past_due l = Some n \<and> 1 \<le> n \<and> n \<le> 30 \<longrightarrow>
            cleaned_lms.delinquency_bucket l = Some ''Late'')
     \<and> (\<forall>n. typed_lms.days_past_due l = Some n \<and> 31 \<le> n \<and> n \<le> 90 \<longrightarrow>
            cleaned_lms.delinquency_bucket l = Some ''Delinquent'')
     \<and> (\<forall>n. typed_lms.days_past_due l = Some n \<and> 90 < n \<longrightarrow>
            cleaned_lms.delinquency_bucket l = Some ''Default'')
     \<and> (typed_lms.days_past_due l = Some 30 \<longrightarrow> cleaned_lms.delinquency_bucket l = Some ''Late'')
     \<and> (typed_lms.days_past_due l = Some 31 \<longrightarrow>
            cleaned_lms.delinquency_bucket l = Some ''Delinquent'')
     \<and> (typed_lms.days_past_due l = Some 90 \<longrightarrow>
            cleaned_lms.delinquency_bucket l = Some ''Delinquent'')
     \<and> (typed_lms.days_past_due l = Some 91 \<longrightarrow> cleaned_lms.delinquency_bucket l = Some ''Default'')"
proof
  fix l
  assume "l \<in> set (lms_cleaned eng now raw_lms)"
  then obtain b where l: "l = cleaned_lms_row eng now b"
    using lms_cleaned_rows by blast
  show "(typed_lms.days_past_due l = None \<longrightarrow> cleaned_lms.delinquency_bucket l = None)
     \<and> (typed_lms.days_past_due l = Some 0 \<longrightarrow> cleaned_lms.delinquency_bucket l = Some ''Current'')
     \<and> (\<forall>n. typed_lms.days_past_due l = Some n \<and> 1 \<le> n \<and> n \<le> 30 \<longrightarrow>
            cleaned_lms.delinquency_bucket l = Some ''Late'')
     \<and> (\<forall>n. typed_lms.days_past_due l = Some n \<and> 31 \<le> n \<and> n \<le> 90 \<longrightarrow>
            cleaned_lms.delinquency_bucket l = Some ''Delinquent'')
     \<and> (\<forall>n. typed_lms.days_past_due l = Some n \<and> 90 < n \<longrightarrow>
            cleaned_lms.delinquency_bucket l = Some ''Default'')
     \<and> (typed_lms.days_past_due l = Some 30 \<longrightarrow> cleaned_lms.delinquency_bucket l = Some ''Late'')
     \<and> (typed_lms.days_past_due l = Some 31 \<longrightarrow>
            cleaned_lms.delinquency_bucket l = Some ''Delinquent'')
     \<and> (typed_lms.days_past_due l = Some 90 \<longrightarrow>
            cleaned_lms.delinquency_bucket l = Some ''Delinquent'')
     \<and> (typed_lms.days_past_due l = Some 91 \<longrightarrow> cleaned_lms.delinquency_bucket l = Some ''Default'')"
    unfolding l delinquency_bucket_row days_past_due_row
    by (cases "typed_lms.days_past_due b") simp_all
qed

theorem delinquency_bucket_mapping_witness:
  "map typed_lms.days_past_due
     (lms_cleaned sample_engine 0
        [sample_lms (Some ''L1'') (Some ''APP1'') None None,
         sample_lms (Some ''L2'') (Some ''APP2'') None (Some ''0''),
         sample_lms (Some ''L3'') (Some ''APP3'') None (Some ''30''),
         sample_lms (Some ''L4'') (Some ''APP4'') None (Some ''31''),
         sample_lms (Some ''L5'') (Some ''APP5'') None (Some ''91'')])
   = [None, Some 0, Some 30, Some 31, Some 91]
   \<and> map cleaned_lms.delinquency_bucket
     (lms_cleaned sample_engine 0
        [sample_lms (Some ''L1'') (Some ''APP1'') None None,
         sample_lms (Some ''L2'') (Some ''APP2'') None (Some ''0''),
         sample_lms (Some ''L3'') (Some ''APP3'') None (Some ''30''),
         sample_lms (Some ''L4'') (Some ''APP4'') None (Some ''31''),
         sample_lms (Some ''L5'') (Some ''APP5'') None (Some ''91'')])
   = [None, Some ''Current'', Some ''Late'', Some ''Delinquent'', Some ''Default'']"
  using delinquency_bucket_mapping [of sample_engine 0
       "[sample_lms (Some ''L1'') (Some ''APP1'') None None,
         sample_lms (Some ''L2'') (Some ''APP2'') None (Some ''0''),
         sample_lms (Some ''L3'') (Some ''APP3'') None (Some ''30''),
         sample_lms (Some ''L4'') (Some ''APP4'') None (Some ''31''),
         sample_lms (Some ''L5'') (Some ''APP5'') None (Some ''91'')]"]
  by (simp add: lms_cleaned_def days_past_due_row days_past_due_base days_past_due_typed
        sample_lms_def sample_cast_defs)

text \<open>
  C10. A row of lms_cleaned whose days_past_due is a negative integer has the bucket Default,
  the catch-all branch of the CASE, and carries flag_days_past_due_negative = true; the
  portfolio rows built from it have the same recomputed bucket and the same flag.
\<close>

theorem negative_days_past_due_default:
  "(\<forall>l \<in> set (lms_cleaned eng now raw_lms).
      \<forall>n. typed_lms.days_past_due l = Some n \<and> n < 0 \<longrightarrow>
        cleaned_lms.delinquency_bucket l = Some ''Default''
        \<and> base_lms.flag_days_past_due_negative l = Some True)
   \<and> (\<forall>p \<in> set (loan_portfolio today cleaned (lms_cleaned eng now raw_lms)).
      \<forall>n. loan_portfolio_row.days_past_due p = Some n \<and> n < 0 \<longrightarrow>
        loan_portfolio_row.delinquency_bucket p = Some ''Default''
        \<and> loan_portfolio_row.flag_days_past_due_negative p = Some True)"
proof -
  have lms: "cleaned_lms.delinquency_bucket l = Some ''Default''
        \<and> base_lms.flag_days_past_due_negative l = Some True"
    if l: "l \<in> set (lms_cleaned eng now raw_lms)"
      and n: "typed_lms.days_past_due l = Some n" "n < 0" for l n
  proof -
    from lms_cleaned_rows [OF l] obtain t where t:
      "l = cleaned_lms_row eng now
             (lms_base eng (lms_loan_id_dupes raw_lms) (lms_app_id_dupes raw_lms) t)" ..
    from n(1) have "typed_lms.days_past_due t = Some n"
      unfolding t days_past_due_row days_past_due_base .
    from lms_negative_row [OF this n(2)] show ?thesis
      unfolding t by simp
  qed
  have portfolio: "loan_portfolio_row.delinquency_bucket p = Some ''Default''
        \<and> loan_portfolio_row.flag_days_past_due_negative p = Some True"
    if p: "p \<in> set (loan_portfolio today cleaned (lms_cleaned eng now raw_lms))"
      and n: "loan_portfolio_row.days_past_due p = Some n" "n < 0" for p n
  proof -
    from loan_portfolio_rows [OF p] obtain a l where
      l: "l = None \<or> (\<exists>x \<in> set (lms_cleaned eng now raw_lms). l = Some x)"
      and pe: "p = select_portfolio today (a, l)"
      by blast
    from n(1) have dpd: "col l typed_lms.days_past_due = Some n"
      unfolding pe portfolio_days_past_due .
    with l obtain x where x: "l = Some x" "x \<in> set (lms_cleaned eng now raw_lms)"
      by (auto simp: col_def)
    from dpd have "typed_lms.days_past_due x = Some n"
      unfolding x(1) by (simp add: col_def)
    from lms [OF x(2) this n(2)] have "base_lms.flag_days_past_due_negative x = Some True" ..
    then have flag: "loan_portfolio_row.flag_days_past_due_negative p = Some True"
      unfolding pe portfolio_flag_dpd x(1) by (simp add: col_def)
    from dpd n(2) have "loan_portfolio_row.delinquency_bucket p = Some ''Default''"
      unfolding pe portfolio_bucket by simp
    then show ?thesis using flag by (rule conjI)
  qed
  from lms portfolio show ?thesis by blast
qed

theorem negative_days_past_due_default_witness:
  "map (\<lambda>l. (typed_lms.days_past_due l, cleaned_lms.delinquency_bucket l,
              base_lms.flag_days_past_due_negative l))
     (lms_cleaned sample_engine 0
        [sample_lms (Some ''L1'') (Some ''APP1'') (Some ''2023-11-20'') (Some ''-3'')])
   = [(Some (- 3), Some ''Default'', Some True)]
   \<and> map (\<lambda>p. (loan_portfolio_row.days_past_due p, loan_portfolio_row.delinquency_bucket p,
              loan_portfolio_row.flag_days_past_due_negative p))
     (loan_portfolio (Date 2024 3 15)
        (cleaned_applications sample_engine 0 [sample_application (Some ''APP1'') None None])
        (lms_cleaned sample_engine 0
           [sample_lms (Some ''L1'') (Some ''APP1'') (Some ''2023-11-20'') (Some ''-3'')]))
   = [(Some (- 3), Some ''Default'', Some True)]"
  using negative_days_past_due_default [of sample_engine 0
        "[sample_lms (Some ''L1'') (Some ''APP1'') (Some ''2023-11-20'') (Some ''-3'')]"
        "Date 2024 3 15"
        "cleaned_applications sample_engine 0 [sample_application (Some ''APP1'') None None]"]
  by (simp add: cleaned_applications_def lms_cleaned_def through_stages portfolio_eval
        sample_rows sample_cast_defs)

subsection \<open>Duplicate application ids\<close>

text \<open>
  What the flag does on ids that are not NULL, as long as app_dupes holds no NULL group:
  true on every occurrence of an id that occurs twice or more, false on an id that occurs
  once.
\<close>

lemma duplicate_flag_without_null_group:
  "\<forall>i < length good. \<forall>s. good_application.application_id (good ! i) = Some s \<longrightarrow>
     (2 \<le> count_rows (Some s) (map good_application.application_id good) \<longrightarrow>
        base_application.flag_application_id_duplicate (cleaned_applications eng now good ! i)
          = Some True)
     \<and> (count_rows (Some s) (map good_application.application_id good) = 1
         \<and> count_rows None (map good_application.application_id good) \<le> 1 \<longrightarrow>
        base_application.flag_application_id_duplicate (cleaned_applications eng now good ! i)
          = Some False)"
proof (intro allI impI)
  fix i s
  assume i: "i < length good" and s: "good_application.application_id (good ! i) = Some s"
  let ?ids = "map good_application.application_id good"
  let ?dupes = "map fst (app_dupes good)"
  have flag: "base_application.flag_application_id_duplicate (cleaned_applications eng now good ! i)
      = sql_in_subquery (Some s) ?dupes"
    using i s by (simp add: cleaned_applications_def flag_duplicate_row)
  have mem: "k \<in> set ?dupes \<longleftrightarrow> 1 < count_rows k ?ids" for k
    unfolding app_dupes_def by (rule dupes_iff)
  have dup: "sql_in_subquery (Some s) ?dupes = Some True" if "2 \<le> count_rows (Some s) ?ids"
  proof -
    from that have in_dupes: "Some s \<in> set ?dupes" unfolding mem by simp
    then have "?dupes \<noteq> []" by auto
    with in_dupes show ?thesis by (simp add: sql_in_subquery_def)
  qed
  have single: "sql_in_subquery (Some s) ?dupes = Some False"
    if "count_rows (Some s) ?ids = 1 \<and> count_rows None ?ids \<le> 1"
  proof -
    from that have "Some s \<notin> set ?dupes" and "None \<notin> set ?dupes"
      unfolding mem by simp_all
    then show ?thesis by (simp add: sql_in_subquery_def)
  qed
  from dup single show
    "(2 \<le> count_rows (Some s) ?ids \<longrightarrow>
        base_application.flag_application_id_duplicate (cleaned_applications eng now good ! i)
          = Some True)
     \<and> (count_rows (Some s) ?ids = 1 \<and> count_rows None ?ids \<le> 1 \<longrightarrow>
        base_application.flag_application_id_duplicate (cleaned_applications eng now good ! i)
          = Some False)"
    unfolding flag by blast
qed

text \<open>
  C4. The flag is \<^verbatim>\<open>application_id IN (SELECT application_id FROM app_dupes)\<close>, and
  app_dupes keeps the group of the NULL ids. With the ids NULL, NULL, APP1 the flag is NULL
  on all three rows: not true on the two occurrences of the NULL id, and not false on APP1,
  which occurs once. With the ids NULL, APP1, APP1 the flag of the row with the NULL id,
  which occurs once, is NULL and not false.
\<close>

theorem duplicate_flag_null_ids:
  "map good_application.application_id
     [sample_application None None None,
      sample_application None None None,
      sample_application (Some ''APP1'') None None]
   = [None, None, Some ''APP1'']
   \<and> map base_application.flag_application_id_duplicate
     (cleaned_applications sample_engine 0
        [sample_application None None None,
         sample_application None None None,
         sample_application (Some ''APP1'') None None])
   = [None, None, None]
   \<and> map good_application.application_id
     [sample_application None None None,
      sample_application (Some ''APP1'') None None,
      sample_application (Some ''APP1'') None None]
   = [None, Some ''APP1'', Some ''APP1'']
   \<and> map base_application.flag_application_id_duplicate
     (cleaned_applications sample_engine 0
        [sample_application None None None,
         sample_application (Some ''APP1'') None None,
         sample_application (Some ''APP1'') None None])
   = [None, Some True, Some True]"
  by (simp add: dupes_eval sample_rows)

subsection \<open>Email normalisation\<close>

text \<open>
  C8. \<^verbatim>\<open>REGEXP_REPLACE(LOWER(customer_email), '\s+', '')\<close> is called without the
  global option, so only the first run of whitespace is removed: the email
  \<^verbatim>\<open>Ann Lee @Mail.de\<close> is cleaned to \<^verbatim>\<open>annlee @mail.de\<close>, which still holds a space.
\<close>

theorem customer_email_keeps_later_whitespace:
  "map typed_application.customer_email
     (cleaned_applications sample_engine 0
        [sample_application (Some ''APP1'') (Some ''Ann Lee @Mail.de'') None])
   = [Some ''annlee @mail.de'']"
  by (simp add: cleaned_applications_def customer_email_row sample_rows sample_engine_def
        sql_lower_def lower_char_def sql_regexp_replace_spaces_def regexp_replace_spaces_def
        is_space_def)

subsection \<open>Portfolio\<close>

text \<open>
  C6. The portfolio is the left outer join of the cleaned applications with lms_cleaned on
  equal, non-null application_id, and nothing else decides a match, the status in
  particular not: every pair of an application and an LMS record with the same
  application_id gives a portfolio row that carries the application and the columns of
  that record; every application is carried by some row; every portfolio row carries an
  application and either the columns of an LMS record with its application_id, or, when
  there is no such record, NULL in every LMS column, loan_id, delinquency_bucket and
  months_since_disbursement included; the bucket of a portfolio row is what the CASE of
  lms_cleaned gives on the same days_past_due; and the number of rows is the sum over the
  applications of the number of their matches, counted as one when there is none.
\<close>

theorem portfolio_left_join:
  "(\<forall>a \<in> set cleaned. \<forall>l \<in> set lms.
       (\<exists>s. typed_application.application_id a = Some s \<and> typed_lms.application_id l = Some s) \<longrightarrow>
       (\<exists>p \<in> set (loan_portfolio today cleaned lms).
          cleaned_application.truncate p = a
          \<and> (loan_portfolio_row.loan_id p, lms_application_id p,
             loan_portfolio_row.disbursement_date p, loan_portfolio_row.current_balance_eur p,
             loan_portfolio_row.days_past_due p, loan_portfolio_row.payment_status p,
             loan_portfolio_row.last_payment_date p, loan_portfolio_row.next_payment_due p,
             loan_portfolio_row.flag_loan_id_null p, flag_application_id_null_1 p,
             loan_portfolio_row.flag_application_id_invalid_format p,
             loan_portfolio_row.flag_current_balance_negative p,
             loan_portfolio_row.flag_days_past_due_negative p,
             loan_portfolio_row.flag_last_payment_before_disbursement p,
             loan_portfolio_row.flag_next_due_before_disbursement p,
             loan_portfolio_row.flag_last_payment_after_next_due p, lms_data_quality_flags p,
             lms_processed_at p)
            = (typed_lms.loan_id l, typed_lms.application_id l, typed_lms.disbursement_date l,
               typed_lms.current_balance_eur l, typed_lms.days_past_due l,
               typed_lms.payment_status l, typed_lms.last_payment_date l,
               typed_lms.next_payment_due l, base_lms.flag_loan_id_null l,
               base_lms.flag_application_id_null l,
               base_lms.flag_application_id_invalid_format l,
               base_lms.flag_current_balance_negative l,
               base_lms.flag_days_past_due_negative l,
               base_lms.flag_last_payment_before_disbursement l,
               base_lms.flag_next_due_before_disbursement l,
               base_lms.flag_last_payment_after_next_due l,
               Some (cleaned_lms.data_quality_flags l), Some (cleaned_lms.processed_at l))))
   \<and> (\<forall>a \<in> set cleaned. \<exists>p \<in> set (loan_portfolio today cleaned lms).
       cleaned_application.truncate p = a)
   \<and> (\<forall>p \<in> set (loan_portfolio today cleaned lms).
       cleaned_application.truncate p \<in> set cleaned
       \<and> ((\<exists>l \<in> set lms.
              (\<exists>s. typed_application.application_id p = Some s \<and> typed_lms.application_id l = Some s)
              \<and> (loan_portfolio_row.loan_id p, lms_application_id p,
                  loan_portfolio_row.disbursement_date p,
                  loan_portfolio_row.current_balance_eur p, loan_portfolio_row.days_past_due p,
                  loan_portfolio_row.payment_status p, loan_portfolio_row.last_payment_date p,
                  loan_portfolio_row.next_payment_due p,
                  loan_portfolio_row.flag_loan_id_null p, flag_application_id_null_1 p,
                  loan_portfolio_row.flag_application_id_invalid_format p,
                  loan_portfolio_row.flag_current_balance_negative p,
                  loan_portfolio_row.flag_days_past_due_negative p,
                  loan_portfolio_row.flag_last_payment_before_disbursement p,
                  loan_portfolio_row.flag_next_due_before_disbursement p,
                  loan_portfolio_row.flag_last_payment_after_next_due p,
                  lms_data_quality_flags p, lms_processed_at p)
                = (typed_lms.loan_id l, typed_lms.application_id l,
                    typed_lms.disbursement_date l, typed_lms.current_balance_eur l,
                    typed_lms.days_past_due l, typed_lms.payment_status l,
                    typed_lms.last_payment_date l, typed_lms.next_payment_due l,
                    base_lms.flag_loan_id_null l, base_lms.flag_application_id_null l,
                    base_lms.flag_application_id_invalid_format l,
                    base_lms.flag_current_balance_negative l,
                    base_lms.flag_days_past_due_negative l,
                    base_lms.flag_last_payment_before_disbursement l,
                    base_lms.flag_next_due_before_disbursement l,
                    base_lms.flag_last_payment_after_next_due l,
                    Some (cleaned_lms.data_quality_flags l), Some (cleaned_lms.processed_at l)))
          \<or> ((\<forall>l \<in> set lms.
                \<not> (\<exists>s. typed_application.application_id p = Some s \<and> typed_lms.application_id l = Some s))
              \<and> (loan_portfolio_row.loan_id p, lms_application_id p,
                  loan_portfolio_row.disbursement_date p,
                  loan_portfolio_row.current_balance_eur p, loan_portfolio_row.days_past_due p,
                  loan_portfolio_row.payment_status p, loan_portfolio_row.last_payment_date p,
                  loan_portfolio_row.next_payment_due p,
                  loan_portfolio_row.flag_loan_id_null p, flag_application_id_null_1 p,
                  loan_portfolio_row.flag_application_id_invalid_format p,
                  loan_portfolio_row.flag_current_balance_negative p,
                  loan_portfolio_row.flag_days_past_due_negative p,
                  loan_portfolio_row.flag_last_payment_before_disbursement p,
                  loan_portfolio_row.flag_next_due_before_disbursement p,
                  loan_portfolio_row.flag_last_payment_after_next_due p,
                  lms_data_quality_flags p, lms_processed_at p)
                = (None, None, None, None, None, None, None, None, None, None, None, None,
                    None, None, None, None, None, None)
              \<and> loan_portfolio_row.delinquency_bucket p = None
              \<and> months_since_disbursement p = None))
       \<and> (\<forall>eng now b. typed_lms.days_past_due b = loan_portfolio_row.days_past_due p \<longrightarrow>
            loan_portfolio_row.delinquency_bucket p =
              cleaned_lms.delinquency_bucket (cleaned_lms_row eng now b)))
   \<and> length (loan_portfolio today cleaned lms) =
       sum_list (map (\<lambda>a. max 1 (length (filter
         (\<lambda>l. \<exists>s. typed_application.application_id a = Some s
                  \<and> typed_lms.application_id l = Some s) lms))) cleaned)"
proof -
  let ?on = "\<lambda>a l. sql_eq (typed_application.application_id a) (typed_lms.application_id l)"
  let ?T = "\<lambda>p. (loan_portfolio_row.loan_id p, lms_application_id p,
               loan_portfolio_row.disbursement_date p,
               loan_portfolio_row.current_balance_eur p, loan_portfolio_row.days_past_due p,
               loan_portfolio_row.payment_status p, loan_portfolio_row.last_payment_date p,
               loan_portfolio_row.next_payment_due p, loan_portfolio_row.flag_loan_id_null p,
               flag_application_id_null_1 p,
               loan_portfolio_row.flag_application_id_invalid_format p,
               loan_portfolio_row.flag_current_balance_negative p,
               loan_portfolio_row.flag_days_past_due_negative p,
               loan_portfolio_row.flag_last_payment_before_disbursement p,
               loan_portfolio_row.flag_next_due_before_disbursement p,
               loan_portfolio_row.flag_last_payment_after_next_due p, lms_data_quality_flags p,
               lms_processed_at p)"
  let ?L = "\<lambda>l. (typed_lms.loan_id l, typed_lms.application_id l, typed_lms.disbursement_date l,
               typed_lms.current_balance_eur l, typed_lms.days_past_due l,
               typed_lms.payment_status l, typed_lms.last_payment_date l,
               typed_lms.next_payment_due l, base_lms.flag_loan_id_null l,
               base_lms.flag_application_id_null l,
               base_lms.flag_application_id_invalid_format l,
               base_lms.flag_current_balance_negative l,
               base_lms.flag_days_past_due_negative l,
               base_lms.flag_last_payment_before_disbursement l,
               base_lms.flag_next_due_before_disbursement l,
               base_lms.flag_last_payment_after_next_due l,
               Some (cleaned_lms.data_quality_flags l), Some (cleaned_lms.processed_at l))"
  let ?N = "(None, None, None, None, None, None, None, None, None, None, None, None, None,
             None, None, None, None, None)"
  have surfaces: "\<exists>p \<in> set (loan_portfolio today cleaned lms). cleaned_application.truncate p = a \<and> ?T p = ?L l"
    if a: "a \<in> set cleaned" and l: "l \<in> set lms"
      and m: "(\<exists>s. typed_application.application_id a = Some s \<and> typed_lms.application_id l = Some s)" for a l
  proof -
    from m have "sql_where (?on a l)"
      unfolding match_iff .
    with a l have "(a, Some l) \<in> set (left_join ?on cleaned lms)"
      unfolding left_join_iff by blast
    then have mem: "select_portfolio today (a, Some l) \<in> set (loan_portfolio today cleaned lms)"
      unfolding loan_portfolio_def set_map by (rule imageI)
    have row: "cleaned_application.truncate (select_portfolio today (a, Some l)) = a
          \<and> ?T (select_portfolio today (a, Some l)) = ?L l"
      using portfolio_application [of today a "Some l"] portfolio_matched [of today a l]
      by (rule conjI)
    show ?thesis
    proof (rule bexI)
      show "cleaned_application.truncate (select_portfolio today (a, Some l)) = a
          \<and> ?T (select_portfolio today (a, Some l)) = ?L l"
        by (rule row)
      show "select_portfolio today (a, Some l) \<in> set (loan_portfolio today cleaned lms)"
        by (rule mem)
    qed
  qed
  have retained: "\<exists>p \<in> set (loan_portfolio today cleaned lms). cleaned_application.truncate p = a"
    if a: "a \<in> set cleaned" for a
  proof -
    have "\<exists>l. (a, l) \<in> set (left_join ?on cleaned lms)"
    proof (cases "\<exists>x \<in> set lms. sql_where (?on a x)")
      case True
      then obtain x where "x \<in> set lms" "sql_where (?on a x)" by blast
      with a have "(a, Some x) \<in> set (left_join ?on cleaned lms)"
        unfolding left_join_iff by blast
      then show ?thesis ..
    next
      case False
      with a have "(a, None) \<in> set (left_join ?on cleaned lms)"
        unfolding left_join_iff by blast
      then show ?thesis ..
    qed
    then obtain l where "(a, l) \<in> set (left_join ?on cleaned lms)" ..
    then have "select_portfolio today (a, l) \<in> set (loan_portfolio today cleaned lms)"
      unfolding loan_portfolio_def set_map by (rule imageI)
    moreover have "cleaned_application.truncate (select_portfolio today (a, l)) = a"
      by (rule portfolio_application)
    ultimately show ?thesis ..
  qed
  have rows: "cleaned_application.truncate p \<in> set cleaned
       \<and> ((\<exists>l \<in> set lms. (\<exists>s. typed_application.application_id p = Some s \<and> typed_lms.application_id l = Some s) \<and> ?T p = ?L l)
          \<or> ((\<forall>l \<in> set lms. \<not> (\<exists>s. typed_application.application_id p = Some s \<and> typed_lms.application_id l = Some s))
              \<and> ?T p = ?N
              \<and> loan_portfolio_row.delinquency_bucket p = None
              \<and> months_since_disbursement p = None))
       \<and> (\<forall>eng now b. typed_lms.days_past_due b = loan_portfolio_row.days_past_due p \<longrightarrow>
            loan_portfolio_row.delinquency_bucket p =
              cleaned_lms.delinquency_bucket (cleaned_lms_row eng now b))"
    if p: "p \<in> set (loan_portfolio today cleaned lms)" for p
  proof -
    from loan_portfolio_pairs [OF p] obtain a l' where
      al: "(a, l') \<in> set (left_join ?on cleaned lms)" and pe: "p = select_portfolio today (a, l')"
      by blast
    from al have a: "a \<in> set cleaned"
      unfolding left_join_iff by blast
    have trunc: "cleaned_application.truncate p \<in> set cleaned"
      unfolding pe portfolio_application by (rule a)
    have id: "typed_application.application_id p = typed_application.application_id a"
      unfolding pe by (rule portfolio_application_id)
    have cases: "(\<exists>l \<in> set lms. (\<exists>s. typed_application.application_id p = Some s \<and> typed_lms.application_id l = Some s) \<and> ?T p = ?L l)
          \<or> ((\<forall>l \<in> set lms. \<not> (\<exists>s. typed_application.application_id p = Some s \<and> typed_lms.application_id l = Some s))
              \<and> ?T p = ?N
              \<and> loan_portfolio_row.delinquency_bucket p = None
              \<and> months_since_disbursement p = None)"
    proof (cases l')
      case None
      with al have no: "\<forall>x \<in> set lms. \<not> sql_where (?on a x)"
        unfolding left_join_iff by blast
      have pn: "p = select_portfolio today (a, None)"
        using pe None by simp
      from no have "\<forall>l \<in> set lms. \<not> (\<exists>s. typed_application.application_id p = Some s \<and> typed_lms.application_id l = Some s)"
        unfolding id match_iff .
      moreover from portfolio_unmatched_columns [of today a]
      have "?T p = ?N \<and> loan_portfolio_row.delinquency_bucket p = None
              \<and> months_since_disbursement p = None"
        unfolding pn by simp
      ultimately show ?thesis
        by (intro disjI2 conjI) simp_all
    next
      case (Some x)
      with al have x: "x \<in> set lms" and on: "sql_where (?on a x)"
        unfolding left_join_iff by auto
      have px: "p = select_portfolio today (a, Some x)"
        using pe Some by simp
      from on have "(\<exists>s. typed_application.application_id p = Some s \<and> typed_lms.application_id x = Some s)"
        unfolding id match_iff .
      moreover have "?T p = ?L x"
        unfolding px by (rule portfolio_matched)
      ultimately have both: "(\<exists>s. typed_application.application_id p = Some s \<and> typed_lms.application_id x = Some s) \<and> ?T p = ?L x"
        by (rule conjI)
      have "\<exists>l \<in> set lms. (\<exists>s. typed_application.application_id p = Some s \<and> typed_lms.application_id l = Some s) \<and> ?T p = ?L l"
      proof (rule bexI)
        show "(\<exists>s. typed_application.application_id p = Some s \<and> typed_lms.application_id x = Some s) \<and> ?T p = ?L x"
          by (rule both)
        show "x \<in> set lms"
          by (rule x)
      qed
      then show ?thesis by (rule disjI1)
    qed
    have same_rule: "\<forall>eng now b. typed_lms.days_past_due b = loan_portfolio_row.days_past_due p \<longrightarrow>
            loan_portfolio_row.delinquency_bucket p =
              cleaned_lms.delinquency_bucket (cleaned_lms_row eng now b)"
      unfolding pe portfolio_bucket portfolio_days_past_due delinquency_bucket_row by simp
    from trunc cases same_rule show ?thesis
      by (intro conjI)
  qed
  have count: "length (loan_portfolio today cleaned lms) =
       sum_list (map (\<lambda>a. max 1 (length (filter
         (\<lambda>l. \<exists>s. typed_application.application_id a = Some s
                  \<and> typed_lms.application_id l = Some s) lms))) cleaned)"
    unfolding loan_portfolio_def length_map left_join_length match_iff ..
  show ?thesis
  proof (intro conjI)
    show "(\<forall>a \<in> set cleaned. \<forall>l \<in> set lms.
       (\<exists>s. typed_application.application_id a = Some s \<and> typed_lms.application_id l = Some s) \<longrightarrow>
       (\<exists>p \<in> set (loan_portfolio today cleaned lms).
          cleaned_application.truncate p = a
          \<and> (loan_portfolio_row.loan_id p, lms_application_id p,
             loan_portfolio_row.disbursement_date p, loan_portfolio_row.current_balance_eur p,
             loan_portfolio_row.days_past_due p, loan_portfolio_row.payment_status p,
             loan_portfolio_row.last_payment_date p, loan_portfolio_row.next_payment_due p,
             loan_portfolio_row.flag_loan_id_null p, flag_application_id_null_1 p,
             loan_portfolio_row.flag_application_id_invalid_format p,
             loan_portfolio_row.flag_current_balance_negative p,
             loan_portfolio_row.flag_days_past_due_negative p,
             loan_portfolio_row.flag_last_payment_before_disbursement p,
             loan_portfolio_row.flag_next_due_before_disbursement p,
             loan_portfolio_row.flag_last_payment_after_next_due p, lms_data_quality_flags p,
             lms_processed_at p)
            = (typed_lms.loan_id l, typed_lms.application_id l, typed_lms.disbursement_date l,
               typed_lms.current_balance_eur l, typed_lms.days_past_due l,
               typed_lms.payment_status l, typed_lms.last_payment_date l,
               typed_lms.next_payment_due l, base_lms.flag_loan_id_null l,
               base_lms.flag_application_id_null l,
               base_lms.flag_application_id_invalid_format l,
               base_lms.flag_current_balance_negative l,
               base_lms.flag_days_past_due_negative l,
               base_lms.flag_last_payment_before_disbursement l,
               base_lms.flag_next_due_before_disbursement l,
               base_lms.flag_last_payment_after_next_due l,
               Some (cleaned_lms.data_quality_flags l), Some (cleaned_lms.processed_at l))))"
      using surfaces by (intro ballI impI)
    show "(\<forall>a \<in> set cleaned. \<exists>p \<in> set (loan_portfolio today cleaned lms).
       cleaned_application.truncate p = a)"
      using retained by (intro ballI)
    show "(\<forall>p \<in> set (loan_portfolio today cleaned lms).
       cleaned_application.truncate p \<in> set cleaned
       \<and> ((\<exists>l \<in> set lms.
              (\<exists>s. typed_application.application_id p = Some s \<and> typed_lms.application_id l = Some s)
              \<and> (loan_portfolio_row.loan_id p, lms_application_id p,
                  loan_portfolio_row.disbursement_date p,
                  loan_portfolio_row.current_balance_eur p, loan_portfolio_row.days_past_due p,
                  loan_portfolio_row.payment_status p, loan_portfolio_row.last_payment_date p,
                  loan_portfolio_row.next_payment_due p,
                  loan_portfolio_row.flag_loan_id_null p, flag_application_id_null_1 p,
                  loan_portfolio_row.flag_application_id_invalid_format p,
                  loan_portfolio_row.flag_current_balance_negative p,
                  loan_portfolio_row.flag_days_past_due_negative p,
                  loan_portfolio_row.flag_last_payment_before_disbursement p,
                  loan_portfolio_row.flag_next_due_before_disbursement p,
                  loan_portfolio_row.flag_last_payment_after_next_due p,
                  lms_data_quality_flags p, lms_processed_at p)
                = (typed_lms.loan_id l, typed_lms.application_id l,
                    typed_lms.disbursement_date l, typed_lms.current_balance_eur l,
                    typed_lms.days_past_due l, typed_lms.payment_status l,
                    typed_lms.last_payment_date l, typed_lms.next_payment_due l,
                    base_lms.flag_loan_id_null l, base_lms.flag_application_id_null l,
                    base_lms.flag_application_id_invalid_format l,
                    base_lms.flag_current_balance_negative l,
                    base_lms.flag_days_past_due_negative l,
                    base_lms.flag_last_payment_before_disbursement l,
                    base_lms.flag_next_due_before_disbursement l,
                    base_lms.flag_last_payment_after_next_due l,
                    Some (cleaned_lms.data_quality_flags l), Some (cleaned_lms.processed_at l)))
          \<or> ((\<forall>l \<in> set lms.
                \<not> (\<exists>s. typed_application.application_id p = Some s \<and> typed_lms.application_id l = Some s))
              \<and> (loan_portfolio_row.loan_id p, lms_application_id p,
                  loan_portfolio_row.disbursement_date p,
                  loan_portfolio_row.current_balance_eur p, loan_portfolio_row.days_past_due p,
                  loan_portfolio_row.payment_status p, loan_portfolio_row.last_payment_date p,
                  loan_portfolio_row.next_payment_due p,
                  loan_portfolio_row.flag_loan_id_null p, flag_application_id_null_1 p,
                  loan_portfolio_row.flag_application_id_invalid_format p,
                  loan_portfolio_row.flag_current_balance_negative p,
                  loan_portfolio_row.flag_days_past_due_negative p,
                  loan_portfolio_row.flag_last_payment_before_disbursement p,
                  loan_portfolio_row.flag_next_due_before_disbursement p,
                  loan_portfolio_row.flag_last_payment_after_next_due p,
                  lms_data_quality_flags p, lms_processed_at p)
                = (None, None, None, None, None, None, None, None, None, None, None, None,
                    None, None, None, None, None, None)
              \<and> loan_portfolio_row.delinquency_bucket p = None
              \<and> months_since_disbursement p = None))
       \<and> (\<forall>eng now b. typed_lms.days_past_due b = loan_portfolio_row.days_past_due p \<longrightarrow>
            loan_portfolio_row.delinquency_bucket p =
              cleaned_lms.delinquency_bucket (cleaned_lms_row eng now b)))"
      using rows by (intro ballI)
    show "length (loan_portfolio today cleaned lms) =
       sum_list (map (\<lambda>a. max 1 (length (filter
         (\<lambda>l. \<exists>s. typed_application.application_id a = Some s
                  \<and> typed_lms.application_id l = Some s) lms))) cleaned)"
      by (rule count)
  qed
qed

theorem portfolio_left_join_witness:
  "map (\<lambda>p. (typed_application.application_id p, typed_application.status p,
              loan_portfolio_row.loan_id p, loan_portfolio_row.days_past_due p,
              loan_portfolio_row.delinquency_bucket p, months_since_disbursement p))
     (loan_portfolio (Date 2024 3 15)
        (cleaned_applications sample_engine 0
           [(sample_application (Some ''APP1'') None None)
              \<lparr>good_application.status := Some ''Rejected''\<rparr>,
            sample_application (Some ''APP2'') None None])
        (lms_cleaned sample_engine 0
           [sample_lms (Some ''L1'') (Some ''APP1'') (Some ''2023-11-20'') (Some ''45''),
            sample_lms (Some ''L2'') (Some ''APP1'') None (Some ''0''),
            sample_lms (Some ''L3'') (Some ''APP9'') None None]))
   = [(Some ''APP1'', Some ''rejected'', Some ''L1'', Some 45, Some ''Delinquent'', Some 4),
      (Some ''APP1'', Some ''rejected'', Some ''L2'', Some 0, Some ''Current'', None),
      (Some ''APP2'', Some ''approved'', None, None, None, None)]"
  using portfolio_left_join [of
        "cleaned_applications sample_engine 0
           [(sample_application (Some ''APP1'') None None)
              \<lparr>good_application.status := Some ''Rejected''\<rparr>,
            sample_application (Some ''APP2'') None None]"
        "lms_cleaned sample_engine 0
           [sample_lms (Some ''L1'') (Some ''APP1'') (Some ''2023-11-20'') (Some ''45''),
            sample_lms (Some ''L2'') (Some ''APP1'') None (Some ''0''),
            sample_lms (Some ''L3'') (Some ''APP9'') None None]"
        "Date 2024 3 15", THEN conjunct2, THEN conjunct2, THEN conjunct2]
  by (simp add: cleaned_applications_def lms_cleaned_def through_stages portfolio_eval
        status_row status_base status_typed portfolio_status sql_lower_def lower_char_def
        sample_rows sample_cast_defs date_diff_month_def)




subsection \<open>Quality report\<close>

text \<open>
  C5. With an LMS feed that has no rows, lms_cleaned is empty and lms_processed is 0, but
  the per-rule counters of the LMS side are NULL, not 0: \<^verbatim>\<open>SUM\<close> over no rows is NULL.
  (On a table where the flag is not NULL on every row, the counter is the number of rows
  with a true flag: lemma \<open>sum_flag_counts_true_rows\<close>.)
\<close>

theorem empty_lms_feed_counters_null:
  "\<not> isl (main sample_engine sample_clock sample_applications_csv sample_lms_csv
        (Some (Columns13 [sample_raw_application (Some ''APP1'') None (Some ''700'') None]))
        (Some []))
   \<and> out_lms_cleaned (projr (main sample_engine sample_clock sample_applications_csv sample_lms_csv
        (Some (Columns13 [sample_raw_application (Some ''APP1'') None (Some ''700'') None]))
        (Some []))) = []
   \<and> lms_processed (out_data_quality_report (projr (main sample_engine sample_clock
        sample_applications_csv sample_lms_csv
        (Some (Columns13 [sample_raw_application (Some ''APP1'') None (Some ''700'') None]))
        (Some [])))) = 0
   \<and> lms_loan_id_null (out_data_quality_report (projr (main sample_engine sample_clock
        sample_applications_csv sample_lms_csv
        (Some (Columns13 [sample_raw_application (Some ''APP1'') None (Some ''700'') None]))
        (Some [])))) = None
   \<and> lms_days_past_due_negative (out_data_quality_report (projr (main sample_engine sample_clock
        sample_applications_csv sample_lms_csv
        (Some (Columns13 [sample_raw_application (Some ''APP1'') None (Some ''700'') None]))
        (Some [])))) = None"
  by (simp add: main_def Let_def raw_applications_bad_def raw_applications_good_def
        data_quality_report_def lms_cleaned_def sum_flag_def sql_sum_def sql_count_star_def)

subsection \<open>Processing timestamp\<close>

text \<open>
  C7. Every statement reads \<^verbatim>\<open>CURRENT_TIMESTAMP\<close> itself and renders it as Berlin wall-clock
  time; the UTC value that \<^verbatim>\<open>main()\<close> computes at the start is not used. In a run whose
  statements start in different seconds, cleaned_applications, lms_cleaned and the report
  carry three different values of processed_at, none of them the UTC time of the start.
\<close>

theorem processed_at_differs_between_tables:
  "now_utc sample_clock = 1700000000000000
   \<and> \<not> isl (main sample_engine sample_clock sample_applications_csv sample_lms_csv
        (Some (Columns13 [sample_raw_application (Some ''APP1'') None None None]))
        (Some [sample_lms (Some ''L1'') (Some ''APP1'') None None]))
   \<and> map cleaned_application.processed_at
       (out_cleaned_applications (projr (main sample_engine sample_clock sample_applications_csv sample_lms_csv
          (Some (Columns13 [sample_raw_application (Some ''APP1'') None None None]))
          (Some [sample_lms (Some ''L1'') (Some ''APP1'') None None]))))
     = [1700003601000000]
   \<and> map cleaned_lms.processed_at
       (out_lms_cleaned (projr (main sample_engine sample_clock sample_applications_csv sample_lms_csv
          (Some (Columns13 [sample_raw_application (Some ''APP1'') None None None]))
          (Some [sample_lms (Some ''L1'') (Some ''APP1'') None None]))))
     = [1700003603000000]
   \<and> data_quality_report_row.processed_at
       (out_data_quality_report (projr (main sample_engine sample_clock sample_applications_csv sample_lms_csv
          (Some (Columns13 [sample_raw_application (Some ''APP1'') None None None]))
          (Some [sample_lms (Some ''L1'') (Some ''APP1'') None None]))))
     = 1700003606000000"
  by (simp add: main_def Let_def sample_clock_def raw_applications_bad_def
        raw_applications_good_def sample_raw_application_def sql_defs cleaned_applications_def
        lms_cleaned_def processed_at_row lms_processed_at_row data_quality_report_def
        date_trunc_second_def at_time_zone_berlin_def sample_engine_def)

end
